theory Spec2Isabelle
  imports Main "HOL-Library.Word" "HOL-Library.Sublist"
begin

section \<open>Python strings and bytes\<close>

text \<open>
  A Python \<open>str\<close> is a sequence of Unicode code points, so it is modelled as a list of
  natural numbers (one per code point); slicing \<open>s[:n]\<close> is \<open>take n\<close>. A \<open>bytes\<close>
  value is a list of 8-bit words. \<open>lit\<close> turns an ASCII literal of the source into the
  code points it denotes.
\<close>

type_synonym pystr = "nat list"
type_synonym byte = "8 word"
type_synonym pybytes = "byte list"

definition lit :: "string \<Rightarrow> pystr" where
  "lit s = map of_char s"

abbreviation NL :: pystr where "NL \<equiv> [10]"
abbreviation CRLF :: pystr where "CRLF \<equiv> [13, 10]"
abbreviation DQ :: pystr where "DQ \<equiv> [34]"
abbreviation STX :: pystr where "STX \<equiv> [2]"
abbreviation ETX :: pystr where "ETX \<equiv> [3]"

text \<open>The em dash U+2014 used as the placeholder for a missing location.\<close>

abbreviation EM_DASH :: pystr where "EM_DASH \<equiv> [8212]"

text \<open>
  Truthiness of an optional string: \<open>None\<close> and the empty string are false.
  \<open>py_or v d\<close> is the Python expression \<open>v or d\<close>.
\<close>

definition truthy :: "pystr option \<Rightarrow> bool" where
  "truthy v = (case v of None \<Rightarrow> False | Some s \<Rightarrow> s \<noteq> [])"

definition py_or :: "pystr option \<Rightarrow> pystr \<Rightarrow> pystr" where
  "py_or v d = (case v of None \<Rightarrow> d | Some s \<Rightarrow> if s = [] then d else s)"

text \<open>\<open>f"{v}"\<close> on an optional string: \<open>None\<close> prints as the word \<open>None\<close>.\<close>

definition fstr :: "pystr option \<Rightarrow> pystr" where
  "fstr v = (case v of None \<Rightarrow> lit ''None'' | Some s \<Rightarrow> s)"

text \<open>\<open>data.encode("latin-1", errors="replace")\<close>: a code point above 255 becomes \<open>?\<close>.\<close>

definition encode_latin1 :: "pystr \<Rightarrow> pybytes" where
  "encode_latin1 s = map (\<lambda>c. if c < 256 then of_nat c else 0x3F) s"

subsection \<open>Decimal and hexadecimal formatting\<close>

fun dec :: "nat \<Rightarrow> pystr" where
  "dec n = (if n < 10 then [48 + n] else dec (n div 10) @ [48 + n mod 10])"

declare dec.simps [simp del]

definition zfill :: "nat \<Rightarrow> pystr \<Rightarrow> pystr" where
  "zfill w s = replicate (w - length s) 48 @ s"

text \<open>\<open>str(i)\<close> and \<open>f"{i}"\<close> for a Python integer.\<close>

definition str_int :: "int \<Rightarrow> pystr" where
  "str_int i = (if i < 0 then 45 # dec (nat (- i)) else dec (nat i))"

definition hex_digit :: "nat \<Rightarrow> nat" where
  "hex_digit d = (if d < 10 then 48 + d else 87 + d)"

text \<open>The format \<open>{0:04x}\<close> on a number below \<open>0x10000\<close>.\<close>

definition hex4 :: "nat \<Rightarrow> pystr" where
  "hex4 n = [hex_digit (n div 4096 mod 16), hex_digit (n div 256 mod 16),
             hex_digit (n div 16 mod 16), hex_digit (n mod 16)]"

subsection \<open>The timestamp\<close>

text \<open>
  \<open>datetime.now().strftime("%Y-%m-%d %H:%M")\<close>. The clock reading is a parameter of
  every encoder; the year is printed with at least four digits, the other fields with
  two.
\<close>

record datetime =
  year :: nat
  month :: nat
  day :: nat
  hour :: nat
  minute :: nat

definition strftime_ymdhm :: "datetime \<Rightarrow> pystr" where
  "strftime_ymdhm t =
     zfill 4 (dec (year t)) @ lit ''-'' @ zfill 2 (dec (month t)) @ lit ''-'' @
     zfill 2 (dec (day t)) @ lit '' '' @ zfill 2 (dec (hour t)) @ lit '':'' @
     zfill 2 (dec (minute t))"

subsection \<open>\<open>json.dumps\<close> on the dictionaries the encoders build\<close>

text \<open>
  \<open>json.dumps\<close> with its defaults (\<open>ensure_ascii=True\<close>): backslash, double quote and
  the five short escapes, every other code point outside \<open>0x20..0x7E\<close> as \<open>\uXXXX\<close>,
  with a surrogate pair above the basic plane.
\<close>

definition json_escape_char :: "nat \<Rightarrow> pystr" where
  "json_escape_char c =
     (if c = 92 then [92, 92]
      else if c = 34 then [92, 34]
      else if c = 8 then [92, 98]
      else if c = 12 then [92, 102]
      else if c = 10 then [92, 110]
      else if c = 13 then [92, 114]
      else if c = 9 then [92, 116]
      else if 32 \<le> c \<and> c \<le> 126 then [c]
      else if c < 65536 then [92, 117] @ hex4 c
      else [92, 117] @ hex4 (55296 + (c - 65536) div 1024 mod 1024) @
           [92, 117] @ hex4 (56320 + (c - 65536) mod 1024))"

definition json_str :: "pystr \<Rightarrow> pystr" where
  "json_str s = DQ @ concat (map json_escape_char s) @ DQ"

definition json_opt_str :: "pystr option \<Rightarrow> pystr" where
  "json_opt_str v = (case v of None \<Rightarrow> lit ''null'' | Some s \<Rightarrow> json_str s)"

section \<open>LabelEncoder\<close>

text \<open>
  \<open>HoneywellPrinter.ipl(asset_id, epc, name, location, tag_type)\<close>. The name and the
  location may be \<open>None\<close> (a short CSV row), which \<open>or\<close> treats like the empty string.
\<close>

definition ipl :: "pystr \<Rightarrow> pystr option \<Rightarrow> pystr option \<Rightarrow> pystr option \<Rightarrow> pystr \<Rightarrow> datetime \<Rightarrow> pystr" where
  "ipl asset_id epc name location tag_type now =
     (let ts = strftime_ymdhm now in
      STX @
      lit ''n'' @ CRLF @
      lit ''M t'' @ CRLF @
      lit ''S l1;c15,3'' @ CRLF @
      lit ''d PC'' @ CRLF @
      lit ''B 20,10,0,1,2,2,50,B,'' @ DQ @ take 28 (py_or name asset_id) @ DQ @ CRLF @
      lit ''T 20,70,0,3,1,1,'' @ DQ @ lit ''Asset ID: '' @ asset_id @ DQ @ CRLF @
      lit ''T 20,100,0,3,1,1,'' @ DQ @ lit ''EPC:      '' @ py_or epc (lit ''UNASSIGNED'') @ DQ @ CRLF @
      lit ''T 20,128,0,3,1,1,'' @ DQ @ lit ''Type:     '' @ tag_type @ DQ @ CRLF @
      lit ''T 20,150,0,3,1,1,'' @ DQ @ lit ''Loc:      '' @ py_or location EM_DASH @ DQ @ CRLF @
      lit ''B 20,175,0,1A,3,1,60,'' @ DQ @ asset_id @ DQ @ CRLF @
      lit ''T 20,260,0,3,1,1,'' @ DQ @ ts @ DQ @ CRLF @
      (if truthy epc
       then lit ''R 1,E200,'' @ py_or epc (lit ''0000000000000000000000'') @ CRLF
       else []) @
      lit ''P 1'' @ CRLF @
      ETX)"

text \<open>\<open>HoneywellPrinter.zpl(asset_id, epc, name, location, tag_type)\<close>.\<close>

definition zpl :: "pystr \<Rightarrow> pystr option \<Rightarrow> pystr option \<Rightarrow> pystr option \<Rightarrow> pystr \<Rightarrow> datetime \<Rightarrow> pystr" where
  "zpl asset_id epc name location tag_type now =
     (let ts = strftime_ymdhm now;
          qr_data = lit ''{'' @ json_str (lit ''id'') @ lit '': '' @ json_str asset_id @ lit '', '' @
                    json_str (lit ''epc'') @ lit '': '' @ json_str (py_or epc []) @ lit ''}''
      in
      lit ''^XA'' @ NL @
      lit ''^CI28'' @ NL @
      lit ''^PW812'' @ NL @
      lit ''^LL406'' @ NL @
      lit ''^FO0,0^GB812,52,52^FS'' @ NL @
      lit ''^FO18,10^A0N,30,30^FR^FD'' @ take 30 (py_or name asset_id) @ lit ''^FS'' @ NL @
      lit ''^FO18,62^A0N,20,20^FDAsset: '' @ asset_id @ lit ''^FS'' @ NL @
      lit ''^FO18,90^A0N,18,18^FDEPC: '' @ py_or epc (lit ''UNASSIGNED'') @ lit ''^FS'' @ NL @
      lit ''^FO18,114^A0N,16,16^FDType: '' @ tag_type @ lit ''^FS'' @ NL @
      lit ''^FO18,136^A0N,16,16^FDLoc:  '' @ py_or location EM_DASH @ lit ''^FS'' @ NL @
      lit ''^FO18,162^BY2,3,55'' @ NL @
      lit ''^BCN,55,Y,N,N'' @ NL @
      lit ''^FD'' @ asset_id @ lit ''^FS'' @ NL @
      lit ''^FO620,60'' @ NL @
      lit ''^BQN,2,4'' @ NL @
      lit ''^FDMA,'' @ qr_data @ lit ''^FS'' @ NL @
      lit ''^FO18,252^A0N,14,14^FD'' @ ts @ lit ''^FS'' @ NL @
      (if truthy epc then lit ''^RFWM,'' @ fstr epc @ NL else []) @
      lit ''^XZ'' @ NL)"

text \<open>
  \<open>LabelGenerator.zpl(asset_id, epc, name, location, tag_type)\<close>: one triple-quoted
  f-string; the \<open>dpi\<close> argument is not used by the source.
\<close>

definition LabelGenerator_zpl :: "pystr \<Rightarrow> pystr option \<Rightarrow> pystr option \<Rightarrow> pystr option \<Rightarrow> pystr \<Rightarrow> datetime \<Rightarrow> pystr" where
  "LabelGenerator_zpl asset_id epc name location tag_type now =
     (let barcode_data = asset_id;
          qr_data = lit ''{'' @ json_str (lit ''id'') @ lit '': '' @ json_str asset_id @ lit '', '' @
                    json_str (lit ''epc'') @ lit '': '' @ json_opt_str epc @ lit '', '' @
                    json_str (lit ''type'') @ lit '': '' @ json_str tag_type @ lit ''}''
      in
      lit ''^XA'' @ NL @
      lit ''^CI28'' @ NL @
      lit ''^PW812'' @ NL @
      lit ''^LL406'' @ NL @
      lit ''^LH0,0'' @ NL @
      NL @
      lit ''^FO30,20^A0N,28,28^FD'' @ py_or name asset_id @ lit ''^FS'' @ NL @
      lit ''^FO30,60^A0N,18,18^FDAsset: '' @ asset_id @ lit ''^FS'' @ NL @
      lit ''^FO30,90^A0N,18,18^FDEPC: '' @ py_or epc (lit ''UNASSIGNED'') @ lit ''^FS'' @ NL @
      lit ''^FO30,118^A0N,16,16^FDType: '' @ tag_type @ lit ''^FS'' @ NL @
      lit ''^FO30,140^A0N,16,16^FDLoc: '' @ py_or location EM_DASH @ lit ''^FS'' @ NL @
      NL @
      lit ''^FO30,175^BY2,3,60'' @ NL @
      lit ''^BCN,60,Y,N,N'' @ NL @
      lit ''^FD'' @ barcode_data @ lit ''^FS'' @ NL @
      NL @
      lit ''^FO600,20'' @ NL @
      lit ''^BQN,2,4'' @ NL @
      lit ''^FDMA,'' @ qr_data @ lit ''^FS'' @ NL @
      NL @
      lit ''^FO30,260^A0N,14,14^FD'' @ strftime_ymdhm now @ lit ''^FS'' @ NL @
      lit ''^FO600,260^A0N,14,14^FDverified^FS'' @ NL @
      NL @
      lit ''^RFWM,'' @ py_or epc (lit ''0000000000000000000000'') @ NL @
      lit ''^XZ'')"


section \<open>String helpers of the coordinator\<close>

text \<open>
  \<open>str.isspace\<close> on one code point, and \<open>str.strip()\<close>. \<open>split_paren\<close> is
  \<open>s.split("(")[0]\<close>: the text before the first opening parenthesis.
\<close>

definition py_isspace :: "nat \<Rightarrow> bool" where
  "py_isspace c =
     ((9 \<le> c \<and> c \<le> 13) \<or> (28 \<le> c \<and> c \<le> 32) \<or> c = 133 \<or> c = 160 \<or> c = 5760 \<or>
      (8192 \<le> c \<and> c \<le> 8202) \<or> c = 8232 \<or> c = 8233 \<or> c = 8239 \<or> c = 8287 \<or> c = 12288)"

definition py_strip :: "pystr \<Rightarrow> pystr" where
  "py_strip s = rev (dropWhile py_isspace (rev (dropWhile py_isspace s)))"

definition split_paren :: "pystr \<Rightarrow> pystr" where
  "split_paren s = takeWhile (\<lambda>c. c \<noteq> 40) s"

text \<open>
  \<open>str.lower()\<close> on the ASCII letters. Python also lowers letters beyond ASCII; the
  only ones that give a plain ASCII letter are the Kelvin sign (it becomes \<open>k\<close>) and
  the capital I with a dot above (it becomes \<open>i\<close> followed by a combining dot).
  \<open>k\<close> occurs in none of \<open>"ipl"\<close>, \<open>"zpl"\<close> and \<open>"timed out"\<close>, and in these words
  no combining dot follows the \<open>i\<close>, so the comparisons with these words are not
  affected; the lowered text itself is that of Python for ASCII input only.
\<close>

definition py_lower :: "pystr \<Rightarrow> pystr" where
  "py_lower s = map (\<lambda>c. if 65 \<le> c \<and> c \<le> 90 then c + 32 else c) s"

text \<open>\<open>bytes.upper()\<close> and ASCII byte literals.\<close>

definition bytes_upper :: "pybytes \<Rightarrow> pybytes" where
  "bytes_upper b = map (\<lambda>c. if 0x61 \<le> c \<and> c \<le> 0x7A then c - 0x20 else c) b"

definition blit :: "string \<Rightarrow> pybytes" where
  "blit s = map of_char s"

section \<open>Exceptions and the outside world\<close>

text \<open>
  An exception is its class and the text \<open>str(e)\<close>. The classes are the ones the
  handlers of the source tell apart; \<open>is_OSError\<close> is the subclass test of
  \<open>except OSError\<close>.
\<close>

datatype exn_class =
  ConnectionRefusedError | TimeoutError | FileNotFoundError | OSError |
  ImportError | AttributeError | OtherException

datatype pyexn = Exn exn_class pystr

fun is_OSError :: "exn_class \<Rightarrow> bool" where
  "is_OSError ConnectionRefusedError = True"
| "is_OSError TimeoutError = True"
| "is_OSError FileNotFoundError = True"
| "is_OSError OSError = True"
| "is_OSError ImportError = False"
| "is_OSError AttributeError = False"
| "is_OSError OtherException = False"

text \<open>
  What the peer and the operating system do is not decided by the program: it is read
  from an environment. \<open>net env k\<close> scripts the connection opened at tick \<open>k\<close>: whether
  \<open>create_connection\<close>, \<open>sendall\<close> and \<open>shutdown\<close> raise, and what \<open>recv\<close> returns or
  raises. \<open>usb env k\<close> scripts a spooler job, \<open>clock env k\<close> is the reading of
  \<open>datetime.now()\<close>, \<open>system env\<close> is \<open>platform.system()\<close>.
\<close>

record conn_script =
  connect_raises :: "pyexn option"
  sendall_raises :: "pyexn option"
  shutdown_raises :: "pyexn option"
  recv_result :: "pyexn + pybytes"

record usb_script =
  run_result :: "pyexn + (int \<times> (pyexn + pystr))"
  win32_raises :: "pyexn option"

record env =
  net :: "nat \<Rightarrow> conn_script"
  usb :: "nat \<Rightarrow> usb_script"
  clock :: "nat \<Rightarrow> datetime"
  system :: pystr

text \<open>
  The state threaded through every operation: the tick that indexes the environment,
  the log of what reached the network, the spooler and the disk, and the files written
  (a path is the pair of directory and file name that \<open>os.path.join\<close> combines; the
  content is the text handed to \<open>write\<close>). Opening and writing a file always succeed
  here: a name that \<open>open\<close> refuses, such as an asset id with a path separator, is
  not modelled, and what is proved about a written file holds when the write succeeds.
  \<open>DetectCall\<close> marks an entry into \<open>detect_language\<close>.
\<close>

datatype event =
  DetectCall pystr int
| Connect pystr int
| SendAll pybytes
| Spawn "pystr list" pybytes
| Win32Job "pystr option" pybytes
| FileWrite pystr pystr pystr

record world =
  tick :: nat
  trace :: "event list"
  files :: "(pystr \<times> pystr) \<rightharpoonup> pystr"

definition emit :: "event \<Rightarrow> world \<Rightarrow> world" where
  "emit e w = w\<lparr>trace := trace w @ [e]\<rparr>"

definition next_tick :: "world \<Rightarrow> world" where
  "next_tick w = w\<lparr>tick := Suc (tick w)\<rparr>"

definition read_clock :: "env \<Rightarrow> world \<Rightarrow> datetime \<times> world" where
  "read_clock e w = (clock e (tick w), next_tick w)"

definition write_file :: "pystr \<Rightarrow> pystr \<Rightarrow> pystr \<Rightarrow> world \<Rightarrow> world" where
  "write_file dir fname text w =
     emit (FileWrite dir fname text) (w\<lparr>files := (files w)((dir, fname) \<mapsto> text)\<rparr>)"

fun is_detect :: "event \<Rightarrow> bool" where
  "is_detect (DetectCall h p) = True"
| "is_detect (Connect h p) = False"
| "is_detect (SendAll b) = False"
| "is_detect (Spawn c b) = False"
| "is_detect (Win32Job n b) = False"
| "is_detect (FileWrite d f t) = False"

section \<open>LanguageDetector\<close>

text \<open>
  The classification of the bytes read, the code of \<open>detect_language\<close> after the
  \<open>with\<close> block.
\<close>

definition has_zpl_marker :: "pybytes \<Rightarrow> bool" where
  "has_zpl_marker resp = (sublist (blit ''^'') resp \<or> sublist (blit ''ZPL'') (bytes_upper resp))"

definition classify_response :: "pybytes \<Rightarrow> pystr" where
  "classify_response resp =
     (if resp \<noteq> [] then
        if take 1 resp = [0x02] then lit ''ipl''
        else if has_zpl_marker resp then lit ''zpl''
        else if take 1 resp = [0x02] \<or> take 1 resp = [0x06] \<or> take 1 resp = [0x15] then lit ''ipl''
        else lit ''zpl''
      else lit ''zpl'')"

text \<open>
  The \<open>try\<close> block of \<open>detect_language\<close>: an exception of \<open>create_connection\<close> or
  \<open>sendall\<close> leaves it, an exception of \<open>recv\<close> is caught inside and gives the empty
  response.
\<close>

definition detect_try :: "env \<Rightarrow> pystr \<Rightarrow> int \<Rightarrow> world \<Rightarrow> (pyexn + pystr) \<times> world" where
  "detect_try e host port w =
     (let sc = net e (tick w);
          w1 = emit (Connect host port) (next_tick w)
      in case connect_raises sc of
           Some x \<Rightarrow> (Inl x, w1)
         | None \<Rightarrow>
            (let w2 = emit (SendAll (blit ''^XA^HH^XZ'' @ [0x0D, 0x0A])) w1
             in (case sendall_raises sc of
                   Some x \<Rightarrow> (Inl x, w2)
                 | None \<Rightarrow>
                    (let resp = (case recv_result sc of Inl x \<Rightarrow> [] | Inr d \<Rightarrow> take 256 d)
                     in (Inr (classify_response resp), w2)))))"

text \<open>\<open>detect_language\<close>: the \<open>try\<close> block under \<open>except Exception: return "unknown"\<close>.\<close>

definition detect_language :: "env \<Rightarrow> pystr \<Rightarrow> int \<Rightarrow> world \<Rightarrow> (pyexn + pystr) \<times> world" where
  "detect_language e host port w =
     (case detect_try e host port (emit (DetectCall host port) w) of
        (Inl x, w') \<Rightarrow> (Inr (lit ''unknown''), w')
      | (Inr r, w') \<Rightarrow> (Inr r, w'))"

section \<open>TransportSender\<close>

definition print_network_try :: "env \<Rightarrow> pystr \<Rightarrow> pystr \<Rightarrow> int \<Rightarrow> world \<Rightarrow> (pyexn + bool \<times> pystr) \<times> world" where
  "print_network_try e host data port w =
     (let sc = net e (tick w);
          w1 = emit (Connect host port) (next_tick w)
      in case connect_raises sc of
           Some x \<Rightarrow> (Inl x, w1)
         | None \<Rightarrow>
            (let w2 = emit (SendAll (encode_latin1 data)) w1
             in (case sendall_raises sc of
                   Some x \<Rightarrow> (Inl x, w2)
                 | None \<Rightarrow>
                    (case shutdown_raises sc of
                       Some x \<Rightarrow> (Inl x, w2)
                     | None \<Rightarrow>
                        (case recv_result sc of
                           Inl x \<Rightarrow> (Inr (True, lit ''OK''), w2)
                         | Inr d \<Rightarrow>
                            (let resp = take 64 d
                             in if resp \<noteq> [] \<and> take 1 resp = [0x15]
                                then (Inr (False, lit ''Printer returned NACK (check label format)''), w2)
                                else (Inr (True, lit ''OK''), w2)))))))"

text \<open>The three \<open>except\<close> clauses of \<open>print_network\<close>, in the order of the source.\<close>

definition print_network_except :: "pystr \<Rightarrow> int \<Rightarrow> pyexn \<Rightarrow> bool \<times> pystr" where
  "print_network_except host port x =
     (case x of Exn c m \<Rightarrow>
        if c = ConnectionRefusedError then
          (False, lit ''Connection refused '' @ EM_DASH @ lit '' is printer online at '' @
                  host @ lit '':'' @ str_int port @ lit ''?'')
        else if is_OSError c then
          (if sublist (lit ''timed out'') (py_lower m) then
             (False, lit ''Timeout '' @ EM_DASH @ lit '' printer not responding at '' @
                     host @ lit '':'' @ str_int port)
           else (False, m))
        else (False, m))"

definition print_network :: "env \<Rightarrow> pystr \<Rightarrow> pystr \<Rightarrow> int \<Rightarrow> world \<Rightarrow> (pyexn + bool \<times> pystr) \<times> world" where
  "print_network e host data port w =
     (case print_network_try e host data port w of
        (Inl x, w') \<Rightarrow> (Inr (print_network_except host port x), w')
      | (Inr r, w') \<Rightarrow> (Inr r, w'))"

text \<open>
  \<open>print_usb\<close>: the \<open>try\<close> block with its three platform branches, then the handlers
  \<open>except FileNotFoundError\<close> and \<open>except Exception\<close>. \<open>run_result\<close> is what
  \<open>subprocess.run\<close> does: it raises, or returns the exit code and the decoded, stripped
  standard error (whose decoding may raise too).
\<close>

definition spool_job :: "usb_script \<Rightarrow> pystr \<Rightarrow> pyexn + bool \<times> pystr" where
  "spool_job sc fallback =
     (case run_result sc of
        Inl x \<Rightarrow> Inl x
      | Inr (returncode, err) \<Rightarrow>
          if returncode \<noteq> 0 then
            (case err of Inl x \<Rightarrow> Inl x
                       | Inr t \<Rightarrow> Inr (False, if t = [] then fallback else t))
          else Inr (True, lit ''OK''))"

definition print_usb_try :: "env \<Rightarrow> pystr \<Rightarrow> pystr option \<Rightarrow> world \<Rightarrow> (pyexn + bool \<times> pystr) \<times> world" where
  "print_usb_try e data printer_name w =
     (let sc = usb e (tick w);
          bytes = encode_latin1 data;
          w0 = next_tick w
      in if system e = lit ''Darwin'' then
           (let cmd = [lit ''lpr'', lit ''-l''] @
                      (if truthy printer_name then [lit ''-P'', the printer_name] else [])
            in (spool_job sc (lit ''lpr failed (check printer name in Settings)''),
                emit (Spawn cmd bytes) w0))
         else if system e = lit ''Windows'' then
           (case win32_raises sc of
              Some (Exn c m) \<Rightarrow>
                if c = ImportError then
                  (Inr (False, lit ''win32print not installed '' @ EM_DASH @
                               lit '' run: pip install pywin32''), w0)
                else (Inl (Exn c m), emit (Win32Job printer_name bytes) w0)
            | None \<Rightarrow> (Inr (True, lit ''OK''), emit (Win32Job printer_name bytes) w0))
         else
           (let cmd = [lit ''lp'', lit ''-o'', lit ''raw''] @
                      (if truthy printer_name then [lit ''-d'', the printer_name] else [])
            in (spool_job sc [], emit (Spawn cmd bytes) w0)))"

definition print_usb :: "env \<Rightarrow> pystr \<Rightarrow> pystr option \<Rightarrow> world \<Rightarrow> (pyexn + bool \<times> pystr) \<times> world" where
  "print_usb e data printer_name w =
     (case print_usb_try e data printer_name w of
        (Inl (Exn c m), w') \<Rightarrow>
          if c = FileNotFoundError
          then (Inr (False, lit ''lpr/lp not found '' @ EM_DASH @ lit '' ensure CUPS is installed''), w')
          else (Inr (False, m), w')
      | (Inr r, w') \<Rightarrow> (Inr r, w'))"


section \<open>PrintCoordinator\<close>

text \<open>
  \<open>HoneywellPrinter.print_label\<close>. Its first block chooses the language; the label is
  built next, with one reading of the clock; the host is checked only after that.
  The result is the triple \<open>(ok, msg, lang)\<close>.
\<close>

definition resolve_language :: "env \<Rightarrow> pystr \<Rightarrow> pystr option \<Rightarrow> int \<Rightarrow> pystr \<Rightarrow> world \<Rightarrow> (pyexn + pystr) \<times> world" where
  "resolve_language e mode host port language w =
     (if language = lit ''auto'' then
        if mode = lit ''network'' \<and> truthy host then
          (case detect_language e (the host) port w of
             (Inl x, w') \<Rightarrow> (Inl x, w')
           | (Inr detected, w') \<Rightarrow>
               (Inr (if detected = lit ''ipl'' then lit ''ipl'' else lit ''zpl''), w'))
        else (Inr (lit ''zpl''), w)
      else (Inr (py_lower language), w))"

definition print_label ::
  "env \<Rightarrow> pystr \<Rightarrow> pystr option \<Rightarrow> pystr option \<Rightarrow> pystr option \<Rightarrow> pystr \<Rightarrow>
   pystr \<Rightarrow> pystr option \<Rightarrow> int \<Rightarrow> pystr option \<Rightarrow> pystr \<Rightarrow> world \<Rightarrow>
   (pyexn + bool \<times> pystr \<times> pystr) \<times> world" where
  "print_label e asset_id epc name location tag_type mode host port printer_name language w =
     (case resolve_language e mode host port language w of
        (Inl x, w1) \<Rightarrow> (Inl x, w1)
      | (Inr lang, w1) \<Rightarrow>
         (case read_clock e w1 of (now, w2) \<Rightarrow>
           (let data = (if lang = lit ''ipl''
                        then ipl asset_id epc name location tag_type now
                        else zpl asset_id epc name location tag_type now)
            in if mode = lit ''network'' then
                 if \<not> truthy host then
                   (Inr (False, lit ''No printer IP address configured'', lang), w2)
                 else
                   (case print_network e (the host) data port w2 of
                      (Inl x, w3) \<Rightarrow> (Inl x, w3)
                    | (Inr (ok, msg), w3) \<Rightarrow> (Inr (ok, msg, lang), w3))
               else
                 (case print_usb e data printer_name w2 of
                    (Inl x, w3) \<Rightarrow> (Inl x, w3)
                  | (Inr (ok, msg), w3) \<Rightarrow> (Inr (ok, msg, lang), w3)))))"

text \<open>
  The entries of the read/encode panel and the printer settings. The settings are the
  values after their defaults (\<open>get_setting(...) or ...\<close>) and after \<open>int(...)\<close> on the
  port; reading them from the settings store is the collaborator's part.
\<close>

record form =
  v_asset_id :: pystr
  v_epc :: pystr
  v_name :: pystr
  v_location :: pystr
  v_tag_type :: pystr

record settings =
  print_mode :: pystr
  printer_ip :: pystr
  printer_port :: int
  printer_usb_name :: "pystr option"
  printer_lang :: pystr
  export_dir :: pystr

text \<open>
  \<open>ReadEncodePanel._print_label\<close> with its worker run to the end. With an empty asset
  id the method logs an error and returns (\<open>None\<close>). Otherwise the worker prints, then
  renders the label again and writes it to \<open><aid>.<ext>\<close>; the extension is computed from
  the language setting \<open>lang\<close>, not from \<open>lang_used\<close>. Messages to the log box and the
  update of the asset record are not part of the model.
\<close>

definition ReadEncodePanel_print_label ::
  "env \<Rightarrow> form \<Rightarrow> settings \<Rightarrow> world \<Rightarrow> (pyexn + (bool \<times> pystr \<times> pystr) option) \<times> world" where
  "ReadEncodePanel_print_label e f cfg w =
     (let aid = py_strip (v_asset_id f);
          epc = py_strip (v_epc f)
      in if aid = [] then (Inr None, w)
         else
           (let tag = py_strip (split_paren (v_tag_type f))
            in case print_label e aid (if epc = [] then None else Some epc)
                      (Some (v_name f)) (Some (v_location f)) tag
                      (print_mode cfg) (Some (printer_ip cfg)) (printer_port cfg)
                      (printer_usb_name cfg) (printer_lang cfg) w of
                 (Inl x, w1) \<Rightarrow> (Inl x, w1)
               | (Inr (ok, msg, lang_used), w1) \<Rightarrow>
                  (let ext = (if printer_lang cfg = lit ''ipl'' then lit ''ipl'' else lit ''zpl'')
                   in case read_clock e w1 of (now, w2) \<Rightarrow>
                       (let label_data =
                              (if ext = lit ''ipl''
                               then ipl aid (Some epc) (Some (v_name f)) (Some (v_location f)) tag now
                               else zpl aid (Some epc) (Some (v_name f)) (Some (v_location f)) tag now)
                        in (Inr (Some (ok, msg, lang_used)),
                            write_file (export_dir cfg) (aid @ lit ''.'' @ ext) label_data w2)))))"

text \<open>
  A batch row is a dictionary read by \<open>csv.DictReader\<close>: a column of the header that
  the line does not reach has the value \<open>None\<close>, a column the header does not name is
  absent. \<open>row_get r k d\<close> is \<open>r.get(k, d)\<close>; calling \<open>strip\<close> or \<open>split\<close> on \<open>None\<close>
  raises \<open>AttributeError\<close>.
\<close>

type_synonym row = "pystr \<rightharpoonup> pystr option"

definition row_get :: "row \<Rightarrow> pystr \<Rightarrow> pystr \<Rightarrow> pystr option" where
  "row_get r k d = (case r k of None \<Rightarrow> Some d | Some v \<Rightarrow> v)"

definition no_attribute :: "pystr \<Rightarrow> pyexn" where
  "no_attribute a =
     Exn AttributeError ([39] @ lit ''NoneType'' @ [39] @ lit '' object has no attribute '' @
                         [39] @ a @ [39])"

definition strip_method :: "pystr option \<Rightarrow> pyexn + pystr" where
  "strip_method v = (case v of None \<Rightarrow> Inl (no_attribute (lit ''strip'')) | Some s \<Rightarrow> Inr (py_strip s))"

definition split_strip_method :: "pystr option \<Rightarrow> pyexn + pystr" where
  "split_strip_method v =
     (case v of None \<Rightarrow> Inl (no_attribute (lit ''split''))
              | Some s \<Rightarrow> Inr (py_strip (split_paren s)))"

record summary =
  success :: nat
  errors :: nat
  skipped :: nat

text \<open>
  One turn of the \<open>for\<close> loop of the batch worker. An exception ends the worker thread:
  the loop stops and no summary is reported. The label file is written in the branch
  \<open>if ok\<close> only. The progress display and the marks \<open>_printed\<close> and \<open>_error\<close> on the
  row are not part of the model.
\<close>

definition batch_item :: "env \<Rightarrow> settings \<Rightarrow> pystr \<Rightarrow> row \<Rightarrow> summary \<Rightarrow> world \<Rightarrow> (pyexn + summary) \<times> world" where
  "batch_item e cfg effective_lang r s w =
     (case strip_method (row_get r (lit ''asset_id'') []) of
        Inl x \<Rightarrow> (Inl x, w)
      | Inr aid \<Rightarrow>
         (case strip_method (row_get r (lit ''epc'') []) of
            Inl x \<Rightarrow> (Inl x, w)
          | Inr epc_text \<Rightarrow>
             (let epc = (if epc_text = [] then None else Some epc_text);
                  name = row_get r (lit ''name'') [];
                  loc = row_get r (lit ''location'') [];
                  typ = row_get r (lit ''type'') (lit ''Standard (Plastic)'')
              in if aid = [] then (Inr (s\<lparr>skipped := skipped s + 1\<rparr>), w)
                 else
                  (case split_strip_method typ of
                     Inl x \<Rightarrow> (Inl x, w)
                   | Inr tag \<Rightarrow>
                      (case print_label e aid epc name loc tag
                              (print_mode cfg) (Some (printer_ip cfg)) (printer_port cfg)
                              (printer_usb_name cfg) effective_lang w of
                         (Inl x, w1) \<Rightarrow> (Inl x, w1)
                       | (Inr (ok, msg, lang_used), w1) \<Rightarrow>
                           if ok then
                             (let ext = (if lang_used = lit ''ipl'' then lit ''ipl'' else lit ''zpl'')
                              in case read_clock e w1 of (now, w2) \<Rightarrow>
                                  (let data = (if ext = lit ''ipl''
                                               then ipl aid epc name loc tag now
                                               else zpl aid epc name loc tag now)
                                   in (Inr (s\<lparr>success := success s + 1\<rparr>),
                                       write_file (export_dir cfg) (aid @ lit ''.'' @ ext) data w2)))
                           else (Inr (s\<lparr>errors := errors s + 1\<rparr>), w1))))))"

fun batch_loop :: "env \<Rightarrow> settings \<Rightarrow> pystr \<Rightarrow> row list \<Rightarrow> summary \<Rightarrow> world \<Rightarrow> (pyexn + summary) \<times> world" where
  "batch_loop e cfg effective_lang [] s w = (Inr s, w)"
| "batch_loop e cfg effective_lang (r # rs) s w =
     (case batch_item e cfg effective_lang r s w of
        (Inl x, w') \<Rightarrow> (Inl x, w')
      | (Inr s', w') \<Rightarrow> batch_loop e cfg effective_lang rs s' w')"

text \<open>
  The worker of \<open>BatchPanel._batch_print\<close>: the language is probed once, before the
  loop, when the setting is \<open>auto\<close>, the mode is \<open>network\<close> and a host is set; the loop
  then passes \<open>effective_lang\<close> to every \<open>print_label\<close>.
\<close>

definition batch_worker :: "env \<Rightarrow> settings \<Rightarrow> row list \<Rightarrow> world \<Rightarrow> (pyexn + summary) \<times> world" where
  "batch_worker e cfg rows w =
     (case (if printer_lang cfg = lit ''auto'' \<and> print_mode cfg = lit ''network'' \<and> printer_ip cfg \<noteq> []
            then (case detect_language e (printer_ip cfg) (printer_port cfg) w of
                    (Inl x, w') \<Rightarrow> (Inl x, w')
                  | (Inr detected, w') \<Rightarrow>
                      (Inr (if detected = lit ''ipl'' then lit ''ipl'' else lit ''zpl''), w'))
            else (Inr (printer_lang cfg), w)) of
        (Inl x, w1) \<Rightarrow> (Inl x, w1)
      | (Inr effective_lang, w1) \<Rightarrow>
          batch_loop e cfg effective_lang rows \<lparr>success = 0, errors = 0, skipped = 0\<rparr> w1)"

text \<open>\<open>BatchPanel._batch_print\<close>: without rows it warns and returns, else it runs the worker.\<close>

definition BatchPanel_batch_print :: "env \<Rightarrow> settings \<Rightarrow> row list \<Rightarrow> world \<Rightarrow> (pyexn + summary option) \<times> world" where
  "BatchPanel_batch_print e cfg rows w =
     (if rows = [] then (Inr None, w)
      else (case batch_worker e cfg rows w of
              (Inl x, w') \<Rightarrow> (Inl x, w')
            | (Inr s, w') \<Rightarrow> (Inr (Some s), w')))"


section \<open>Sample environments\<close>

text \<open>
  Concrete peers for the examples: a connection that behaves as scripted at every
  tick, on a Linux host whose spooler accepts every job, at a fixed clock reading.
\<close>

definition script_reply :: "pybytes \<Rightarrow> conn_script" where
  "script_reply b =
     \<lparr>connect_raises = None, sendall_raises = None, shutdown_raises = None, recv_result = Inr b\<rparr>"

definition script_silent :: conn_script where
  "script_silent =
     \<lparr>connect_raises = None, sendall_raises = None, shutdown_raises = None,
      recv_result = Inl (Exn TimeoutError (lit ''timed out''))\<rparr>"

definition script_fails :: "pyexn \<Rightarrow> conn_script" where
  "script_fails x =
     \<lparr>connect_raises = Some x, sendall_raises = None, shutdown_raises = None, recv_result = Inr []\<rparr>"

definition every_time :: "conn_script \<Rightarrow> nat \<Rightarrow> conn_script" where
  "every_time sc k = sc"

definition refused :: pyexn where
  "refused = Exn ConnectionRefusedError (lit ''[Errno 111] Connection refused'')"

definition noon :: datetime where
  "noon = \<lparr>year = 2026, month = 11, day = 4, hour = 12, minute = 0\<rparr>"

definition env_of :: "(nat \<Rightarrow> conn_script) \<Rightarrow> env" where
  "env_of scripts =
     \<lparr>net = scripts,
      usb = (\<lambda>k. \<lparr>run_result = Inr (0, Inr []), win32_raises = None\<rparr>),
      clock = (\<lambda>k. noon),
      system = lit ''Linux''\<rparr>"

definition world0 :: world where
  "world0 = \<lparr>tick = 0, trace = [], files = Map.empty\<rparr>"

definition net_settings :: "pystr \<Rightarrow> settings" where
  "net_settings lang =
     \<lparr>print_mode = lit ''network'', printer_ip = lit ''10.0.0.9'', printer_port = 9100,
      printer_usb_name = None, printer_lang = lang, export_dir = lit ''/exports''\<rparr>"

text \<open>A complete CSV row, and a row whose line stops after the asset id.\<close>

definition row_of :: "pystr \<Rightarrow> row" where
  "row_of aid =
     [lit ''asset_id'' \<mapsto> Some aid, lit ''epc'' \<mapsto> Some [],
      lit ''type'' \<mapsto> Some (lit ''Standard (Plastic)'')]"

definition short_row :: "pystr \<Rightarrow> row" where
  "short_row aid = [lit ''asset_id'' \<mapsto> Some aid, lit ''epc'' \<mapsto> None, lit ''type'' \<mapsto> None]"

section \<open>Notions used by the statements\<close>

text \<open>
  The exception that leaves the \<open>try\<close> block of \<open>print_network\<close>, if any: the first one
  raised by \<open>create_connection\<close>, \<open>sendall\<close> or \<open>shutdown\<close>.
\<close>

definition first_raise :: "conn_script \<Rightarrow> pyexn option" where
  "first_raise sc =
     (case connect_raises sc of
        Some x \<Rightarrow> Some x
      | None \<Rightarrow> (case sendall_raises sc of Some x \<Rightarrow> Some x | None \<Rightarrow> shutdown_raises sc))"

text \<open>The events an operation added to the log, and the calls of the detector among them.\<close>

definition new_events :: "world \<Rightarrow> world \<Rightarrow> event list" where
  "new_events w w' = drop (length (trace w)) (trace w')"

definition detect_calls :: "world \<Rightarrow> world \<Rightarrow> nat" where
  "detect_calls w w' = length (filter is_detect (new_events w w'))"

text \<open>
  An output contains a directive when the text of the directive occurs in it; a field
  lacks a text when the text does not occur in it (a field that is \<open>None\<close> lacks
  every text).
\<close>

definition contains_text :: "pystr \<Rightarrow> pystr \<Rightarrow> bool" where
  "contains_text directive out = sublist directive out"

definition lacks :: "pystr \<Rightarrow> pystr \<Rightarrow> bool" where
  "lacks p s = (\<not> sublist p s)"

definition lacks_opt :: "pystr \<Rightarrow> pystr option \<Rightarrow> bool" where
  "lacks_opt p v = (case v of None \<Rightarrow> True | Some s \<Rightarrow> \<not> sublist p s)"

section \<open>Properties of the encoders\<close>

text \<open>
  Claim C5, as stated, at one label: the output of \<open>HoneywellPrinter.zpl\<close> does not end
  with \<open>^XZ\<close>, because the source appends a line feed after the end marker.
\<close>

theorem C5_zpl_end_marker_counterexample:
  "\<not> suffix (lit ''^XZ'')
       (zpl (lit ''A1'') None None None (lit ''Standard'')
            \<lparr>year = 2026, month = 11, day = 4, hour = 9, minute = 5\<rparr>)"
  by (simp add: zpl_def Let_def suffix_to_prefix lit_def)

text \<open>
  Claim C5, amended: for every label and every clock reading, \<open>HoneywellPrinter.zpl\<close>
  starts with \<open>^XA\<close> and ends with \<open>^XZ\<close> followed by one line feed;
  \<open>LabelGenerator.zpl\<close> starts with \<open>^XA\<close> and ends with \<open>^XZ\<close>;
  \<open>HoneywellPrinter.ipl\<close> starts with the code point 2 and ends with the code point 3, and
  so do its bytes in Latin-1, which start with \<open>0x02\<close> and end with \<open>0x03\<close>.
\<close>

theorem C5_render_framing:
  "prefix (lit ''^XA'') (zpl a e n l t d) \<and>
   suffix (lit ''^XZ'' @ NL) (zpl a e n l t d) \<and>
   prefix (lit ''^XA'') (LabelGenerator_zpl a e n l t d) \<and>
   suffix (lit ''^XZ'') (LabelGenerator_zpl a e n l t d) \<and>
   prefix STX (ipl a e n l t d) \<and>
   suffix ETX (ipl a e n l t d) \<and>
   prefix [0x02] (encode_latin1 (ipl a e n l t d)) \<and>
   suffix [0x03] (encode_latin1 (ipl a e n l t d))"
  by (simp add: zpl_def LabelGenerator_zpl_def ipl_def Let_def suffix_to_prefix encode_latin1_def)

section \<open>The operations return, and what they leave behind\<close>

lemma detect_returns: "\<exists>r w'. detect_language e host port w = (Inr r, w')"
  by (simp add: detect_language_def split: prod.splits sum.splits)

lemma print_network_returns: "\<exists>r w'. print_network e host data port w = (Inr r, w')"
  by (simp add: print_network_def split: prod.splits sum.splits)

lemma print_usb_returns: "\<exists>r w'. print_usb e data pn w = (Inr r, w')"
proof (cases "print_usb_try e data pn w")
  case (Pair res w')
  then show ?thesis
    by (cases res) (auto simp: print_usb_def split: pyexn.splits)
qed

lemma detect_not_raise: "detect_language e host port w \<noteq> (Inl x, w')"
  using detect_returns [of e host port w] by auto

lemma print_network_not_raise: "print_network e host data port w \<noteq> (Inl x, w')"
  using print_network_returns [of e host data port w] by auto

lemma print_usb_not_raise: "print_usb e data pn w \<noteq> (Inl x, w')"
  using print_usb_returns [of e data pn w] by auto

lemmas not_raise = detect_not_raise print_network_not_raise print_usb_not_raise

lemma resolve_language_eq:
  "resolve_language e mode host port language w =
     (if language = lit ''auto'' \<and> mode = lit ''network'' \<and> truthy host
      then (Inr (if fst (detect_language e (the host) port w) = Inr (lit ''ipl'') then lit ''ipl'' else lit ''zpl''),
            snd (detect_language e (the host) port w))
      else (Inr (if language = lit ''auto'' then lit ''zpl'' else py_lower language), w))"
  by (auto simp: resolve_language_def not_raise split: prod.splits sum.splits)

lemma print_label_fst:
  "\<exists>ok msg. fst (print_label e a epc n l t mode host port pn language w) =
      Inr (ok, msg, projr (fst (resolve_language e mode host port language w)))"
  by (auto simp: print_label_def resolve_language_eq read_clock_def not_raise Let_def split: prod.splits sum.splits)

lemma print_label_snd:
  "snd (print_label e a epc n l t mode host port pn language w) =
     (let lang = projr (fst (resolve_language e mode host port language w));
          w1 = snd (resolve_language e mode host port language w);
          now = clock e (tick w1);
          data = (if lang = lit ''ipl'' then ipl a epc n l t now else zpl a epc n l t now)
      in if mode = lit ''network'' then
           if \<not> truthy host then next_tick w1
           else snd (print_network e (the host) data port (next_tick w1))
         else snd (print_usb e data pn (next_tick w1)))"
  by (auto simp: print_label_def resolve_language_eq read_clock_def not_raise Let_def split: prod.splits sum.splits)


lemma snd_detect:
  "snd (detect_language e host port w) =
     (case connect_raises (net e (tick w)) of
        Some x \<Rightarrow> w\<lparr>tick := Suc (tick w), trace := trace w @ [DetectCall host port, Connect host port]\<rparr>
      | None \<Rightarrow> w\<lparr>tick := Suc (tick w),
                   trace := trace w @ [DetectCall host port, Connect host port,
                                       SendAll (blit ''^XA^HH^XZ'' @ [0x0D, 0x0A])]\<rparr>)"
  by (simp add: detect_language_def detect_try_def emit_def next_tick_def Let_def
      split: option.splits sum.splits)

lemma snd_print_network:
  "snd (print_network e host data port w) =
     (case connect_raises (net e (tick w)) of
        Some x \<Rightarrow> w\<lparr>tick := Suc (tick w), trace := trace w @ [Connect host port]\<rparr>
      | None \<Rightarrow> w\<lparr>tick := Suc (tick w),
                   trace := trace w @ [Connect host port, SendAll (encode_latin1 data)]\<rparr>)"
  by (simp add: print_network_def print_network_try_def emit_def next_tick_def Let_def
      split: option.splits sum.splits)

lemma print_usb_try_world:
  "tick (snd (print_usb_try e data pn w)) = Suc (tick w) \<and>
   files (snd (print_usb_try e data pn w)) = files w \<and>
   (\<exists>evs. trace (snd (print_usb_try e data pn w)) = trace w @ evs \<and> filter is_detect evs = [])"
proof (cases "system e = lit ''Windows''")
  case False
  then show ?thesis
    by (simp add: print_usb_try_def emit_def next_tick_def Let_def)
next
  case True
  then have nd: "system e \<noteq> lit ''Darwin''" by (simp add: lit_def)
  show ?thesis
  proof (cases "win32_raises (usb e (tick w))")
    case None
    with nd True show ?thesis
      by (simp add: print_usb_try_def emit_def next_tick_def Let_def)
  next
    case (Some x)
    obtain c m where x: "x = Exn c m" by (cases x)
    from nd True Some x show ?thesis
      by (simp add: print_usb_try_def emit_def next_tick_def Let_def)
  qed
qed

lemma snd_print_usb_try: "snd (print_usb e data pn w) = snd (print_usb_try e data pn w)"
proof (cases "print_usb_try e data pn w")
  case (Pair res w')
  then show ?thesis
    by (cases res) (auto simp: print_usb_def split: pyexn.splits)
qed

lemma detect_calls_same: "trace w' = trace w \<Longrightarrow> detect_calls w w' = 0"
  by (simp add: detect_calls_def new_events_def)

lemma detect_calls_trans:
  assumes "prefix (trace w) (trace w1)" and "prefix (trace w1) (trace w2)"
  shows "detect_calls w w2 = detect_calls w w1 + detect_calls w1 w2"
proof -
  from assms obtain a b where "trace w1 = trace w @ a" and "trace w2 = trace w1 @ b"
    by (auto simp: prefix_def)
  then show ?thesis by (simp add: detect_calls_def new_events_def)
qed

lemma detect_effect:
  "files (snd (detect_language e h p w)) = files w \<and>
   prefix (trace w) (trace (snd (detect_language e h p w))) \<and>
   detect_calls w (snd (detect_language e h p w)) = 1 \<and>
   hd (new_events w (snd (detect_language e h p w))) = DetectCall h p"
  by (simp add: snd_detect detect_calls_def new_events_def split: option.splits)

lemma print_network_effect:
  "files (snd (print_network e h d p w)) = files w \<and>
   prefix (trace w) (trace (snd (print_network e h d p w))) \<and>
   detect_calls w (snd (print_network e h d p w)) = 0"
  by (simp add: snd_print_network detect_calls_def new_events_def split: option.splits)

lemma print_usb_effect:
  "files (snd (print_usb e d pn w)) = files w \<and>
   prefix (trace w) (trace (snd (print_usb e d pn w))) \<and>
   detect_calls w (snd (print_usb e d pn w)) = 0"
proof -
  obtain evs where "trace (snd (print_usb e d pn w)) = trace w @ evs"
    and "filter is_detect evs = []" and "files (snd (print_usb e d pn w)) = files w"
    using print_usb_try_world [of e d pn w] unfolding snd_print_usb_try by blast
  then show ?thesis by (simp add: detect_calls_def new_events_def)
qed

lemma resolve_effect:
  "files (snd (resolve_language e mode host port language w)) = files w \<and>
   prefix (trace w) (trace (snd (resolve_language e mode host port language w))) \<and>
   detect_calls w (snd (resolve_language e mode host port language w)) =
     (if language = lit ''auto'' \<and> mode = lit ''network'' \<and> truthy host then 1 else 0)"
  by (simp add: resolve_language_eq detect_effect detect_calls_same)

lemma next_tick_effect:
  "files (next_tick w) = files w \<and> trace (next_tick w) = trace w"
  by (simp add: next_tick_def)

lemma after_resolve:
  fixes w2 :: world
  assumes r: "files w2 = files w" "prefix (trace w) (trace w2)" "detect_calls w w2 = k"
    and q: "files w3 = files w2" "prefix (trace w2) (trace w3)" "detect_calls w2 w3 = 0"
  shows "files w3 = files w \<and> prefix (trace w) (trace w3) \<and> detect_calls w w3 = k"
proof -
  have "detect_calls w w3 = detect_calls w w2 + detect_calls w2 w3"
    using r(2) q(2) by (rule detect_calls_trans)
  moreover have "prefix (trace w) (trace w3)"
    using r(2) q(2) by (rule prefix_order.trans)
  ultimately show ?thesis using r q by simp
qed

lemma print_label_effect:
  "files (snd (print_label e a epc n l t mode host port pn language w)) = files w \<and>
   prefix (trace w) (trace (snd (print_label e a epc n l t mode host port pn language w))) \<and>
   detect_calls w (snd (print_label e a epc n l t mode host port pn language w)) =
     (if language = lit ''auto'' \<and> mode = lit ''network'' \<and> truthy host then 1 else 0)"
proof -
  let ?w1 = "snd (resolve_language e mode host port language w)"
  let ?w2 = "next_tick ?w1"
  let ?k = "if language = lit ''auto'' \<and> mode = lit ''network'' \<and> truthy host then 1 else 0 :: nat"
  let ?w3 = "snd (print_label e a epc n l t mode host port pn language w)"
  have r: "files ?w2 = files w" "prefix (trace w) (trace ?w2)" "detect_calls w ?w2 = ?k"
    using resolve_effect [of e mode host port language w]
    by (simp_all add: next_tick_effect detect_calls_def new_events_def)
  have same: "files ?w2 = files ?w2 \<and> prefix (trace ?w2) (trace ?w2) \<and> detect_calls ?w2 ?w2 = 0"
    by (simp add: detect_calls_same)
  have q: "files ?w3 = files ?w2 \<and> prefix (trace ?w2) (trace ?w3) \<and> detect_calls ?w2 ?w3 = 0"
  proof (cases "mode = lit ''network''")
    case True
    show ?thesis
    proof (cases "truthy host")
      case True
      with \<open>mode = lit ''network''\<close> show ?thesis
        by (simp only: print_label_snd Let_def if_True if_False not_True_eq_False print_network_effect simp_thms)
    next
      case False
      with \<open>mode = lit ''network''\<close> show ?thesis
        using same by (simp only: print_label_snd Let_def if_True if_False not_False_eq_True simp_thms)
    qed
  next
    case False
    then show ?thesis
      by (simp only: print_label_snd Let_def if_True if_False print_usb_effect simp_thms)
  qed
  from q have q1: "files ?w3 = files ?w2" and q2: "prefix (trace ?w2) (trace ?w3)"
    and q3: "detect_calls ?w2 ?w3 = 0"
    by blast+
  show ?thesis
    by (rule after_resolve [OF r q1 q2 q3])
qed

section \<open>Properties of the detector\<close>

lemma fst_detect:
  "fst (detect_language e host port w) =
    (case connect_raises (net e (tick w)) of
       Some x \<Rightarrow> Inr (lit ''unknown'')
     | None \<Rightarrow>
        (case sendall_raises (net e (tick w)) of
           Some x \<Rightarrow> Inr (lit ''unknown'')
         | None \<Rightarrow>
             Inr (classify_response
                   (case recv_result (net e (tick w)) of Inl x \<Rightarrow> [] | Inr d \<Rightarrow> take 256 d))))"
  by (simp add: detect_language_def detect_try_def emit_def next_tick_def Let_def
      split: option.splits sum.splits)

lemma classify_cases: "classify_response r = lit ''zpl'' \<or> classify_response r = lit ''ipl''"
  by (simp add: classify_response_def)

lemma sample_scripts:
  "net (env_of (every_time sc)) (tick world0) = sc"
  by (simp add: env_of_def every_time_def)

text \<open>
  Claim C2, as stated, at the response \<open>0x06 ^\<close>: its first byte is one of the two
  other control bytes, yet the result is \<open>zpl\<close>, because the source looks for the ZPL
  markers before it looks at \<open>0x06\<close> and \<open>0x15\<close>.
\<close>

theorem C2_control_byte_counterexample:
  "take 1 [0x06, 0x5E :: byte] = [0x06] \<and>
   fst (detect_language (env_of (every_time (script_reply [0x06, 0x5E]))) (lit ''10.0.0.9'') 9100 world0)
     = Inr (lit ''zpl'') \<and>
   lit ''zpl'' \<noteq> lit ''ipl''"
  by (simp add: fst_detect sample_scripts script_reply_def classify_response_def has_zpl_marker_def
      blit_def sublist_code lit_def)

text \<open>
  Claim C2, amended: once the probe is sent, a read that fails or returns nothing gives
  \<open>zpl\<close>; a response whose first byte is \<open>0x02\<close> gives \<open>ipl\<close>; any other response
  that contains \<open>^\<close> or, in any letter case, \<open>ZPL\<close> gives \<open>zpl\<close>; a response without
  these markers whose first byte is \<open>0x06\<close> or \<open>0x15\<close> gives \<open>ipl\<close>; every other
  response gives \<open>zpl\<close>.
\<close>

theorem C2_detect_classification:
  assumes "connect_raises (net e (tick w)) = None" and "sendall_raises (net e (tick w)) = None"
  shows "(recv_result (net e (tick w)) = Inl x \<longrightarrow>
            fst (detect_language e host port w) = Inr (lit ''zpl'')) \<and>
         (recv_result (net e (tick w)) = Inr d \<longrightarrow>
            (take 256 d = [] \<longrightarrow> fst (detect_language e host port w) = Inr (lit ''zpl'')) \<and>
            (take 1 d = [0x02] \<longrightarrow> fst (detect_language e host port w) = Inr (lit ''ipl'')) \<and>
            (take 256 d \<noteq> [] \<and> take 1 d \<noteq> [0x02] \<and> has_zpl_marker (take 256 d) \<longrightarrow>
               fst (detect_language e host port w) = Inr (lit ''zpl'')) \<and>
            ((take 1 d = [0x06] \<or> take 1 d = [0x15]) \<and> \<not> has_zpl_marker (take 256 d) \<longrightarrow>
               fst (detect_language e host port w) = Inr (lit ''ipl'')) \<and>
            (take 256 d \<noteq> [] \<and> take 1 d \<noteq> [0x02] \<and> take 1 d \<noteq> [0x06] \<and> take 1 d \<noteq> [0x15] \<longrightarrow>
               fst (detect_language e host port w) = Inr (lit ''zpl'')))"
  using assms by (cases d) (auto simp: fst_detect classify_response_def)

lemma reply_ok:
  "connect_raises (net (env_of (every_time (script_reply b))) (tick world0)) = None"
  "sendall_raises (net (env_of (every_time (script_reply b))) (tick world0)) = None"
  "recv_result (net (env_of (every_time (script_reply b))) (tick world0)) = Inr b"
  by (simp_all add: sample_scripts script_reply_def)

lemma silent_ok:
  "connect_raises (net (env_of (every_time script_silent)) (tick world0)) = None"
  "sendall_raises (net (env_of (every_time script_silent)) (tick world0)) = None"
  "recv_result (net (env_of (every_time script_silent)) (tick world0)) =
     Inl (Exn TimeoutError (lit ''timed out''))"
  by (simp_all add: sample_scripts script_silent_def)

text \<open>Claim C2, amended, at six peers, one for each case.\<close>

theorem C2_detect_classification_witness:
  "fst (detect_language (env_of (every_time script_silent)) (lit ''10.0.0.9'') 9100 world0)
     = Inr (lit ''zpl'') \<and>
   fst (detect_language (env_of (every_time (script_reply []))) (lit ''10.0.0.9'') 9100 world0)
     = Inr (lit ''zpl'') \<and>
   fst (detect_language (env_of (every_time (script_reply [0x02, 0x41]))) (lit ''10.0.0.9'') 9100 world0)
     = Inr (lit ''ipl'') \<and>
   fst (detect_language (env_of (every_time (script_reply [0x41, 0x5E]))) (lit ''10.0.0.9'') 9100 world0)
     = Inr (lit ''zpl'') \<and>
   fst (detect_language (env_of (every_time (script_reply [0x15, 0x41]))) (lit ''10.0.0.9'') 9100 world0)
     = Inr (lit ''ipl'') \<and>
   fst (detect_language (env_of (every_time (script_reply [0x41, 0x42]))) (lit ''10.0.0.9'') 9100 world0)
     = Inr (lit ''zpl'')"
proof -
  have m1: "has_zpl_marker (take 256 [0x41, 0x5E])"
    by (simp add: has_zpl_marker_def blit_def sublist_code)
  have m2: "\<not> has_zpl_marker (take 256 [0x15, 0x41])"
    by (simp add: has_zpl_marker_def blit_def sublist_code bytes_upper_def)
  show ?thesis
    using
      C2_detect_classification [where e = "env_of (every_time script_silent)" and w = world0 and x = "Exn TimeoutError (lit ''timed out'')"
        and d = "[]" and host = "lit ''10.0.0.9''" and port = 9100, OF silent_ok(1,2)]
      C2_detect_classification [where e = "env_of (every_time (script_reply []))" and w = world0 and x = "refused"
        and d = "[]" and host = "lit ''10.0.0.9''" and port = 9100, OF reply_ok(1,2)]
      C2_detect_classification [where e = "env_of (every_time (script_reply [0x02, 0x41]))" and w = world0 and x = "refused"
        and d = "[0x02, 0x41]" and host = "lit ''10.0.0.9''" and port = 9100, OF reply_ok(1,2)]
      C2_detect_classification [where e = "env_of (every_time (script_reply [0x41, 0x5E]))" and w = world0 and x = "refused"
        and d = "[0x41, 0x5E]" and host = "lit ''10.0.0.9''" and port = 9100, OF reply_ok(1,2)]
      C2_detect_classification [where e = "env_of (every_time (script_reply [0x15, 0x41]))" and w = world0 and x = "refused"
        and d = "[0x15, 0x41]" and host = "lit ''10.0.0.9''" and port = 9100, OF reply_ok(1,2)]
      C2_detect_classification [where e = "env_of (every_time (script_reply [0x41, 0x42]))" and w = world0 and x = "refused"
        and d = "[0x41, 0x42]" and host = "lit ''10.0.0.9''" and port = 9100, OF reply_ok(1,2)]
      m1 m2
    by (simp add: silent_ok reply_ok)
qed

text \<open>
  Claim C6, as stated, at a slow host that accepts the connection and the probe and
  then lets the read time out: the exception of \<open>recv\<close> is caught inside the \<open>try\<close>
  block, the response is taken to be empty, and the result is \<open>zpl\<close>, not \<open>unknown\<close>.
\<close>

theorem C6_read_error_counterexample:
  "connect_raises (net (env_of (every_time script_silent)) (tick world0)) = None \<and>
   sendall_raises (net (env_of (every_time script_silent)) (tick world0)) = None \<and>
   recv_result (net (env_of (every_time script_silent)) (tick world0)) =
     Inl (Exn TimeoutError (lit ''timed out'')) \<and>
   fst (detect_language (env_of (every_time script_silent)) (lit ''10.0.0.9'') 9100 world0) =
     Inr (lit ''zpl'') \<and>
   lit ''zpl'' \<noteq> lit ''unknown''"
  by (simp add: fst_detect silent_ok classify_response_def) (simp add: lit_def)

text \<open>
  Claim C6, amended: \<open>detect_language\<close> never raises. Whatever the peer does, it returns
  a value, and the value is \<open>zpl\<close>, \<open>ipl\<close> or \<open>unknown\<close>; every exception raised while
  the connection is opened or the probe is sent resolves to \<open>unknown\<close>; an exception
  raised by the read resolves to \<open>zpl\<close>.
\<close>

theorem C6_detect_never_raises:
  "(\<exists>r. fst (detect_language e host port w) = Inr r \<and>
        (r = lit ''zpl'' \<or> r = lit ''ipl'' \<or> r = lit ''unknown'')) \<and>
   (connect_raises (net e (tick w)) \<noteq> None \<or> sendall_raises (net e (tick w)) \<noteq> None \<longrightarrow>
      fst (detect_language e host port w) = Inr (lit ''unknown'')) \<and>
   (connect_raises (net e (tick w)) = None \<and> sendall_raises (net e (tick w)) = None \<and>
    recv_result (net e (tick w)) = Inl x \<longrightarrow>
      fst (detect_language e host port w) = Inr (lit ''zpl''))"
  using classify_cases by (auto simp: fst_detect classify_response_def split: option.splits)

text \<open>
  Claim C6, amended, at a peer that refuses the connection and at a peer that lets the
  read time out.
\<close>

theorem C6_detect_never_raises_witness:
  "connect_raises (net (env_of (every_time (script_fails refused))) (tick world0)) \<noteq> None \<and>
   fst (detect_language (env_of (every_time (script_fails refused))) (lit ''10.0.0.9'') 9100 world0) =
     Inr (lit ''unknown'') \<and>
   connect_raises (net (env_of (every_time script_silent)) (tick world0)) = None \<and>
   sendall_raises (net (env_of (every_time script_silent)) (tick world0)) = None \<and>
   recv_result (net (env_of (every_time script_silent)) (tick world0)) =
     Inl (Exn TimeoutError (lit ''timed out'')) \<and>
   fst (detect_language (env_of (every_time script_silent)) (lit ''10.0.0.9'') 9100 world0) =
     Inr (lit ''zpl'')"
proof -
  have h: "connect_raises (net (env_of (every_time (script_fails refused))) (tick world0)) \<noteq> None"
    by (simp add: sample_scripts script_fails_def)
  show ?thesis
    using h silent_ok
      C6_detect_never_raises [where e = "env_of (every_time (script_fails refused))"
        and host = "lit ''10.0.0.9''" and port = 9100 and w = world0 and x = refused]
      C6_detect_never_raises [where e = "env_of (every_time script_silent)"
        and host = "lit ''10.0.0.9''" and port = 9100 and w = world0
        and x = "Exn TimeoutError (lit ''timed out'')"]
    by simp
qed

section \<open>Properties of the network send\<close>

lemma take1_nack:
  "(take 64 d \<noteq> [] \<and> take (Suc 0) (take 64 d) = [x]) = (take (Suc 0) d = [x])"
  by (cases d) auto

lemma fst_print_network:
  "fst (print_network e host data port w) =
     (case first_raise (net e (tick w)) of
        Some x \<Rightarrow> Inr (print_network_except host port x)
      | None \<Rightarrow>
         (case recv_result (net e (tick w)) of
            Inl x \<Rightarrow> Inr (True, lit ''OK'')
          | Inr d \<Rightarrow> if take 1 d = [0x15]
                     then Inr (False, lit ''Printer returned NACK (check label format)'')
                     else Inr (True, lit ''OK'')))"
  by (simp add: print_network_def print_network_try_def first_raise_def emit_def next_tick_def
      Let_def take1_nack split: option.splits sum.splits)

lemma fails_raise:
  "first_raise (net (env_of (every_time (script_fails x))) (tick world0)) = Some x"
  by (simp add: sample_scripts script_fails_def first_raise_def)

lemma reply_raise:
  "first_raise (net (env_of (every_time (script_reply b))) (tick world0)) = None"
  by (simp add: sample_scripts script_reply_def first_raise_def)

lemma silent_raise:
  "first_raise (net (env_of (every_time script_silent)) (tick world0)) = None"
  by (simp add: sample_scripts script_silent_def first_raise_def)

lemma em_dash_apart: "lacks EM_DASH m \<Longrightarrow> m \<noteq> a @ EM_DASH @ b"
  unfolding lacks_def sublist_def by blast

text \<open>
  Claim C7, as stated, at a printer that takes the label and then lets the brief read
  time out: the timeout is raised by \<open>recv\<close>, the inner handler passes over it, and the
  result is success with the message \<open>OK\<close>. And at an operating-system error whose text
  is that of the timeout message: the text of an error of the third class is returned as
  it is, so here it is the message that a timeout while connecting gives.
\<close>

theorem C7_read_error_counterexample:
  "first_raise (net (env_of (every_time script_silent)) (tick world0)) = None \<and>
   recv_result (net (env_of (every_time script_silent)) (tick world0)) =
     Inl (Exn TimeoutError (lit ''timed out'')) \<and>
   fst (print_network (env_of (every_time script_silent)) (lit ''10.0.0.9'') (lit ''^XA'') 9100 world0) =
     Inr (True, lit ''OK'') \<and>
   fst (print_network
          (env_of (every_time (script_fails (Exn OSError
             (lit ''Timeout '' @ EM_DASH @ lit '' printer not responding at 10.0.0.9:9100'')))))
          (lit ''10.0.0.9'') (lit ''^XA'') 9100 world0) =
     Inr (False, lit ''Timeout '' @ EM_DASH @ lit '' printer not responding at '' @
                 lit ''10.0.0.9'' @ lit '':'' @ str_int 9100) \<and>
   fst (print_network (env_of (every_time (script_fails (Exn TimeoutError (lit ''timed out'')))))
          (lit ''10.0.0.9'') (lit ''^XA'') 9100 world0) =
     Inr (False, lit ''Timeout '' @ EM_DASH @ lit '' printer not responding at '' @
                 lit ''10.0.0.9'' @ lit '':'' @ str_int 9100)"
proof -
  have n: "\<not> sublist (lit ''timed out'')
      (py_lower (lit ''Timeout '' @ EM_DASH @ lit '' printer not responding at 10.0.0.9:9100''))"
    by (simp add: py_lower_def lit_def sublist_code(3))
  have t: "sublist (lit ''timed out'') (py_lower (lit ''timed out''))"
    by (simp add: py_lower_def lit_def)
  have s: "lit '' printer not responding at 10.0.0.9:9100'' =
      lit '' printer not responding at '' @ lit ''10.0.0.9'' @ lit '':'' @ str_int 9100"
    by (simp add: lit_def str_int_def dec.simps)
  show ?thesis
    using n t
    by (simp add: fst_print_network silent_raise silent_ok fails_raise print_network_except_def s)
qed

text \<open>
  Claim C7, amended: \<open>print_network\<close> never raises. When opening the connection,
  sending or closing the write side raises, the result is failure: for a refused
  connection with the message \<open>Connection refused ...\<close>, for any other operating-system
  error whose text says \<open>timed out\<close> with the message \<open>Timeout ...\<close>, and for every other
  exception with the text of the exception as the message. The first two messages are
  different, and the third differs from both whenever the text of the exception has no
  em dash. An exception raised by the brief read is passed over and the result is
  success with \<open>OK\<close>. A response whose first byte is \<open>0x15\<close> gives failure with the
  NACK message, and any other response gives success with \<open>OK\<close>.
\<close>

theorem C7_print_network_outcomes:
  "(\<exists>ok msg. fst (print_network e host data port w) = Inr (ok, msg)) \<and>
   (first_raise (net e (tick w)) = Some (Exn ConnectionRefusedError m) \<longrightarrow>
      fst (print_network e host data port w) =
        Inr (False, lit ''Connection refused '' @ EM_DASH @ lit '' is printer online at '' @
                    host @ lit '':'' @ str_int port @ lit ''?'')) \<and>
   (first_raise (net e (tick w)) = Some (Exn c m) \<and> c \<noteq> ConnectionRefusedError \<and> is_OSError c \<and>
    sublist (lit ''timed out'') (py_lower m) \<longrightarrow>
      fst (print_network e host data port w) =
        Inr (False, lit ''Timeout '' @ EM_DASH @ lit '' printer not responding at '' @
                    host @ lit '':'' @ str_int port)) \<and>
   (first_raise (net e (tick w)) = Some (Exn c m) \<and> c \<noteq> ConnectionRefusedError \<and> is_OSError c \<and>
    \<not> sublist (lit ''timed out'') (py_lower m) \<longrightarrow>
      fst (print_network e host data port w) = Inr (False, m)) \<and>
   (first_raise (net e (tick w)) = Some (Exn c m) \<and> \<not> is_OSError c \<longrightarrow>
      fst (print_network e host data port w) = Inr (False, m)) \<and>
   (lacks EM_DASH m \<longrightarrow>
      m \<noteq> lit ''Connection refused '' @ EM_DASH @ lit '' is printer online at '' @ host @
            lit '':'' @ str_int port @ lit ''?'' \<and>
      m \<noteq> lit ''Timeout '' @ EM_DASH @ lit '' printer not responding at '' @ host @ lit '':'' @
            str_int port) \<and>
   (first_raise (net e (tick w)) = None \<and> recv_result (net e (tick w)) = Inl x \<longrightarrow>
      fst (print_network e host data port w) = Inr (True, lit ''OK'')) \<and>
   (first_raise (net e (tick w)) = None \<and> recv_result (net e (tick w)) = Inr d \<and> take 1 d = [0x15] \<longrightarrow>
      fst (print_network e host data port w) =
        Inr (False, lit ''Printer returned NACK (check label format)'')) \<and>
   (first_raise (net e (tick w)) = None \<and> recv_result (net e (tick w)) = Inr d \<and> take 1 d \<noteq> [0x15] \<longrightarrow>
      fst (print_network e host data port w) = Inr (True, lit ''OK'')) \<and>
   lit ''Connection refused '' @ EM_DASH @ lit '' is printer online at '' @ host @ lit '':'' @
     str_int port @ lit ''?''
     \<noteq> lit ''Timeout '' @ EM_DASH @ lit '' printer not responding at '' @ host @ lit '':'' @
       str_int port"
proof -
  have apart: "m \<noteq> lit ''Connection refused '' @ EM_DASH @ lit '' is printer online at '' @ host @
            lit '':'' @ str_int port @ lit ''?'' \<and>
      m \<noteq> lit ''Timeout '' @ EM_DASH @ lit '' printer not responding at '' @ host @ lit '':'' @
            str_int port" if "lacks EM_DASH m"
    using that em_dash_apart [of m] by blast
  have rest: "(\<exists>ok msg. fst (print_network e host data port w) = Inr (ok, msg)) \<and>
   (first_raise (net e (tick w)) = Some (Exn ConnectionRefusedError m) \<longrightarrow>
      fst (print_network e host data port w) =
        Inr (False, lit ''Connection refused '' @ EM_DASH @ lit '' is printer online at '' @
                    host @ lit '':'' @ str_int port @ lit ''?'')) \<and>
   (first_raise (net e (tick w)) = Some (Exn c m) \<and> c \<noteq> ConnectionRefusedError \<and> is_OSError c \<and>
    sublist (lit ''timed out'') (py_lower m) \<longrightarrow>
      fst (print_network e host data port w) =
        Inr (False, lit ''Timeout '' @ EM_DASH @ lit '' printer not responding at '' @
                    host @ lit '':'' @ str_int port)) \<and>
   (first_raise (net e (tick w)) = Some (Exn c m) \<and> c \<noteq> ConnectionRefusedError \<and> is_OSError c \<and>
    \<not> sublist (lit ''timed out'') (py_lower m) \<longrightarrow>
      fst (print_network e host data port w) = Inr (False, m)) \<and>
   (first_raise (net e (tick w)) = Some (Exn c m) \<and> \<not> is_OSError c \<longrightarrow>
      fst (print_network e host data port w) = Inr (False, m)) \<and>
   (first_raise (net e (tick w)) = None \<and> recv_result (net e (tick w)) = Inl x \<longrightarrow>
      fst (print_network e host data port w) = Inr (True, lit ''OK'')) \<and>
   (first_raise (net e (tick w)) = None \<and> recv_result (net e (tick w)) = Inr d \<and> take 1 d = [0x15] \<longrightarrow>
      fst (print_network e host data port w) =
        Inr (False, lit ''Printer returned NACK (check label format)'')) \<and>
   (first_raise (net e (tick w)) = None \<and> recv_result (net e (tick w)) = Inr d \<and> take 1 d \<noteq> [0x15] \<longrightarrow>
      fst (print_network e host data port w) = Inr (True, lit ''OK'')) \<and>
   lit ''Connection refused '' @ EM_DASH @ lit '' is printer online at '' @ host @ lit '':'' @
     str_int port @ lit ''?''
     \<noteq> lit ''Timeout '' @ EM_DASH @ lit '' printer not responding at '' @ host @ lit '':'' @
       str_int port"
    by (auto simp: fst_print_network print_network_except_def lit_def
        split: option.splits sum.splits pyexn.splits)
  from apart rest show ?thesis by blast
qed

text \<open>
  Claim C7, amended, at seven peers: refusing, timing out while connecting,
  unreachable (a text without em dash), failing with an exception that is no operating-system error, silent
  after the label, answering NACK, and answering something else.
\<close>

theorem C7_print_network_outcomes_witness:
  "fst (print_network (env_of (every_time (script_fails refused))) (lit ''10.0.0.9'') (lit ''^XA'') 9100 world0) =
     Inr (False, lit ''Connection refused '' @ EM_DASH @ lit '' is printer online at '' @
                 lit ''10.0.0.9'' @ lit '':'' @ str_int 9100 @ lit ''?'') \<and>
   fst (print_network (env_of (every_time (script_fails (Exn TimeoutError (lit ''timed out'')))))
          (lit ''10.0.0.9'') (lit ''^XA'') 9100 world0) =
     Inr (False, lit ''Timeout '' @ EM_DASH @ lit '' printer not responding at '' @
                 lit ''10.0.0.9'' @ lit '':'' @ str_int 9100) \<and>
   fst (print_network (env_of (every_time (script_fails (Exn OSError (lit ''No route to host'')))))
          (lit ''10.0.0.9'') (lit ''^XA'') 9100 world0) =
     Inr (False, lit ''No route to host'') \<and>
   lacks EM_DASH (lit ''No route to host'') \<and>
   lit ''No route to host'' \<noteq>
     lit ''Connection refused '' @ EM_DASH @ lit '' is printer online at '' @
     lit ''10.0.0.9'' @ lit '':'' @ str_int 9100 @ lit ''?'' \<and>
   lit ''No route to host'' \<noteq>
     lit ''Timeout '' @ EM_DASH @ lit '' printer not responding at '' @
     lit ''10.0.0.9'' @ lit '':'' @ str_int 9100 \<and>
   fst (print_network (env_of (every_time (script_fails (Exn OtherException (lit ''bad port'')))))
          (lit ''10.0.0.9'') (lit ''^XA'') 9100 world0) =
     Inr (False, lit ''bad port'') \<and>
   fst (print_network (env_of (every_time script_silent)) (lit ''10.0.0.9'') (lit ''^XA'') 9100 world0) =
     Inr (True, lit ''OK'') \<and>
   fst (print_network (env_of (every_time (script_reply [0x15]))) (lit ''10.0.0.9'') (lit ''^XA'') 9100 world0) =
     Inr (False, lit ''Printer returned NACK (check label format)'') \<and>
   fst (print_network (env_of (every_time (script_reply [0x06]))) (lit ''10.0.0.9'') (lit ''^XA'') 9100 world0) =
     Inr (True, lit ''OK'')"
proof -
  have t: "sublist (lit ''timed out'') (py_lower (lit ''timed out''))"
    by (simp add: py_lower_def lit_def)
  have n: "\<not> sublist (lit ''timed out'') (py_lower (lit ''No route to host''))"
    by (simp add: py_lower_def lit_def sublist_code)
  have a: "lacks EM_DASH (lit ''No route to host'')"
    by (simp add: lacks_def lit_def sublist_code(3))
  show ?thesis
    using a
      C7_print_network_outcomes [where e = "env_of (every_time (script_fails refused))" and w = world0
        and host = "lit ''10.0.0.9''" and data = "lit ''^XA''" and port = 9100
        and c = ConnectionRefusedError and m = "lit ''[Errno 111] Connection refused''" and d = "[]" and x = "refused"]
      C7_print_network_outcomes [where e = "env_of (every_time (script_fails (Exn TimeoutError (lit ''timed out''))))" and w = world0
        and host = "lit ''10.0.0.9''" and data = "lit ''^XA''" and port = 9100
        and c = TimeoutError and m = "lit ''timed out''" and d = "[]" and x = "refused"]
      C7_print_network_outcomes [where e = "env_of (every_time (script_fails (Exn OSError (lit ''No route to host''))))" and w = world0
        and host = "lit ''10.0.0.9''" and data = "lit ''^XA''" and port = 9100
        and c = OSError and m = "lit ''No route to host''" and d = "[]" and x = "refused"]
      C7_print_network_outcomes [where e = "env_of (every_time (script_fails (Exn OtherException (lit ''bad port''))))" and w = world0
        and host = "lit ''10.0.0.9''" and data = "lit ''^XA''" and port = 9100
        and c = OtherException and m = "lit ''bad port''" and d = "[]" and x = "refused"]
      C7_print_network_outcomes [where e = "env_of (every_time script_silent)" and w = world0
        and host = "lit ''10.0.0.9''" and data = "lit ''^XA''" and port = 9100
        and c = OSError and m = "[]" and d = "[]" and x = "Exn TimeoutError (lit ''timed out'')"]
      C7_print_network_outcomes [where e = "env_of (every_time (script_reply [0x15]))" and w = world0
        and host = "lit ''10.0.0.9''" and data = "lit ''^XA''" and port = 9100
        and c = OSError and m = "[]" and d = "[0x15]" and x = "refused"]
      C7_print_network_outcomes [where e = "env_of (every_time (script_reply [0x06]))" and w = world0
        and host = "lit ''10.0.0.9''" and data = "lit ''^XA''" and port = 9100
        and c = OSError and m = "[]" and d = "[0x06]" and x = "refused"]
      t n
    by (simp add: fails_raise reply_raise silent_raise silent_ok reply_ok refused_def)
qed

section \<open>Properties of the coordinator\<close>

lemma lang_names:
  "lit ''ipl'' \<noteq> lit ''auto''" "lit ''zpl'' \<noteq> lit ''auto''" "lit ''zpl'' \<noteq> lit ''ipl''"
  "lit ''auto'' \<noteq> lit ''zpl''" "lit ''auto'' \<noteq> lit ''ipl''" "lit ''usb'' \<noteq> lit ''network''"
  "lit ''unknown'' \<noteq> lit ''ipl''"
  by (simp_all add: lit_def)

lemma py_lower_auto: "py_lower language = lit ''zpl'' \<or> py_lower language = lit ''ipl'' \<Longrightarrow> language \<noteq> lit ''auto''"
  by (auto simp: py_lower_def lit_def)

lemma print_label_no_host:
  "\<not> truthy host \<Longrightarrow>
   fst (print_label e a epc n l t (lit ''network'') host port pn language w) =
     Inr (False, lit ''No printer IP address configured'',
          if language = lit ''auto'' then lit ''zpl'' else py_lower language)"
  by (simp add: print_label_def resolve_language_eq read_clock_def Let_def)

text \<open>
  Claim C10, as stated, at the selector \<open>epl\<close> in network mode without a host: the
  call fails the host check and returns the language \<open>epl\<close>, because a selector other
  than \<open>auto\<close> is returned as it is, in lower case.
\<close>

theorem C10_language_used_counterexample:
  "fst (print_label (env_of (every_time (script_reply []))) (lit ''A1'') None None None (lit ''Standard'')
         (lit ''network'') None 9100 None (lit ''epl'') world0) =
     Inr (False, lit ''No printer IP address configured'', lit ''epl'') \<and>
   lit ''epl'' \<noteq> lit ''zpl'' \<and> lit ''epl'' \<noteq> lit ''ipl''"
proof -
  have "lit ''epl'' \<noteq> lit ''auto''" "py_lower (lit ''epl'') = lit ''epl''"
    "lit ''epl'' \<noteq> lit ''zpl''" "lit ''epl'' \<noteq> lit ''ipl''"
    by (simp_all add: lit_def py_lower_def)
  then show ?thesis
    by (simp add: print_label_no_host truthy_def)
qed

text \<open>
  Claim C10, amended: for every call of \<open>print_label\<close> whose language selector is
  \<open>auto\<close> or lowers to \<open>zpl\<close> or \<open>ipl\<close>, the call returns a triple whose language
  is \<open>zpl\<close> or \<open>ipl\<close>; so does the call that fails because network mode has no
  host.
\<close>

theorem C10_language_used:
  assumes "language = lit ''auto'' \<or> py_lower language = lit ''zpl'' \<or> py_lower language = lit ''ipl''"
  shows "(\<exists>ok msg lang.
            fst (print_label e a epc n l t mode host port pn language w) = Inr (ok, msg, lang) \<and>
            (lang = lit ''zpl'' \<or> lang = lit ''ipl'')) \<and>
         (mode = lit ''network'' \<and> \<not> truthy host \<longrightarrow>
            (\<exists>lang. fst (print_label e a epc n l t mode host port pn language w) =
                      Inr (False, lit ''No printer IP address configured'', lang) \<and>
                    (lang = lit ''zpl'' \<or> lang = lit ''ipl'')))"
proof -
  have r: "projr (fst (resolve_language e mode host port language w)) = lit ''zpl'' \<or>
           projr (fst (resolve_language e mode host port language w)) = lit ''ipl''"
    using assms by (auto simp: resolve_language_eq)
  obtain ok msg where
    "fst (print_label e a epc n l t mode host port pn language w) =
       Inr (ok, msg, projr (fst (resolve_language e mode host port language w)))"
    using print_label_fst by blast
  with r have first: "\<exists>ok msg lang.
            fst (print_label e a epc n l t mode host port pn language w) = Inr (ok, msg, lang) \<and>
            (lang = lit ''zpl'' \<or> lang = lit ''ipl'')"
    by blast
  have second: "\<exists>lang. fst (print_label e a epc n l t (lit ''network'') host port pn language w) =
                      Inr (False, lit ''No printer IP address configured'', lang) \<and>
                    (lang = lit ''zpl'' \<or> lang = lit ''ipl'')" if "\<not> truthy host"
    using that assms by (auto simp: print_label_no_host)
  from first second show ?thesis by blast
qed

text \<open>
  Claim C10, amended, at the selector \<open>IPL\<close> in network mode without a host.
\<close>

theorem C10_language_used_witness:
  "fst (print_label (env_of (every_time (script_reply []))) (lit ''A1'') None None None (lit ''Standard'')
         (lit ''network'') None 9100 None (lit ''IPL'') world0) =
     Inr (False, lit ''No printer IP address configured'', lit ''ipl'')"
proof -
  have l: "py_lower (lit ''IPL'') = lit ''ipl''" "lit ''IPL'' \<noteq> lit ''auto''"
    by (simp_all add: lit_def py_lower_def)
  have h: "lit ''IPL'' = lit ''auto'' \<or> py_lower (lit ''IPL'') = lit ''zpl'' \<or> py_lower (lit ''IPL'') = lit ''ipl''"
    using l by simp
  have t: "\<not> truthy None" by (simp add: truthy_def)
  from C10_language_used [OF h, where mode = "lit ''network''" and host = None
      and e = "env_of (every_time (script_reply []))" and a = "lit ''A1''" and epc = None and n = None
      and l = None and t = "lit ''Standard''" and port = 9100 and pn = None and w = world0] t
  obtain lang where "fst (print_label (env_of (every_time (script_reply []))) (lit ''A1'') None None None (lit ''Standard'')
         (lit ''network'') None 9100 None (lit ''IPL'') world0) =
     Inr (False, lit ''No printer IP address configured'', lang)"
    by blast
  moreover have "fst (print_label (env_of (every_time (script_reply []))) (lit ''A1'') None None None (lit ''Standard'')
         (lit ''network'') None 9100 None (lit ''IPL'') world0) =
     Inr (False, lit ''No printer IP address configured'', lit ''ipl'')"
    using t l by (simp add: print_label_no_host)
  ultimately show ?thesis by simp
qed

lemma new_events_trans:
  assumes "prefix (trace w) (trace w1)" and "prefix (trace w1) (trace w2)"
  shows "new_events w w2 = new_events w w1 @ new_events w1 w2"
proof -
  from assms obtain a b where "trace w1 = trace w @ a" and "trace w2 = trace w1 @ b"
    by (auto simp: prefix_def)
  then show ?thesis by (simp add: new_events_def)
qed

lemma write_file_effect:
  "prefix (trace w) (trace (write_file d f x (next_tick w))) \<and>
   detect_calls w (write_file d f x (next_tick w)) = 0"
  by (simp add: write_file_def emit_def next_tick_def detect_calls_def new_events_def)

text \<open>The worlds one turn of the batch loop can end in.\<close>

lemma batch_item_cases:
  assumes same: "P w"
    and printed: "\<And>a epc n l t. P (snd (print_label e a epc n l t (print_mode cfg)
                     (Some (printer_ip cfg)) (printer_port cfg) (printer_usb_name cfg) el w))"
    and saved: "\<And>a epc n l t d f x. P (write_file d f x (next_tick (snd (print_label e a epc n l t
                     (print_mode cfg) (Some (printer_ip cfg)) (printer_port cfg)
                     (printer_usb_name cfg) el w))))"
  shows "P (snd (batch_item e cfg el r s w))"
proof (cases "strip_method (row_get r (lit ''asset_id'') [])")
  case (Inl x)
  then show ?thesis using same by (simp add: batch_item_def)
next
  case aid: (Inr aid)
  show ?thesis
  proof (cases "strip_method (row_get r (lit ''epc'') [])")
    case (Inl x)
    then show ?thesis using same aid by (simp add: batch_item_def)
  next
    case epc: (Inr epc_text)
    show ?thesis
    proof (cases "aid = []")
      case True
      then show ?thesis using same aid epc by (simp add: batch_item_def Let_def)
    next
      case ne: False
      show ?thesis
      proof (cases "split_strip_method (row_get r (lit ''type'') (lit ''Standard (Plastic)''))")
        case (Inl x)
        then show ?thesis using same aid epc ne by (simp add: batch_item_def Let_def)
      next
        case tag: (Inr tag)
        let ?R = "print_label e aid (if epc_text = [] then None else Some epc_text)
                    (row_get r (lit ''name'') []) (row_get r (lit ''location'') []) tag
                    (print_mode cfg) (Some (printer_ip cfg)) (printer_port cfg)
                    (printer_usb_name cfg) el w"
        obtain res w1 where R: "?R = (res, w1)" by (cases ?R)
        then have w1: "w1 = snd ?R" by simp
        have p1: "P w1"
          unfolding w1 by (rule printed)
        have p2: "P (write_file d f x (next_tick w1))" for d f x
          unfolding w1 by (rule saved)
        show ?thesis
        proof (cases res)
          case (Inl x)
          then show ?thesis
            using aid epc ne tag R p1
            by (simp add: batch_item_def Let_def split del: if_split)
        next
          case (Inr triple)
          obtain ok msg lang_used where triple: "triple = (ok, msg, lang_used)" by (cases triple)
          show ?thesis
          proof (cases ok)
            case True
            then show ?thesis
              using aid epc ne tag R Inr triple p2
              by (simp add: batch_item_def Let_def read_clock_def split del: if_split)
          next
            case False
            then show ?thesis
              using aid epc ne tag R Inr triple p1
              by (simp add: batch_item_def Let_def split del: if_split)
          qed
        qed
      qed
    qed
  qed
qed

lemma batch_item_quiet:
  assumes "\<not> (el = lit ''auto'' \<and> print_mode cfg = lit ''network'' \<and> printer_ip cfg \<noteq> [])"
  shows "prefix (trace w) (trace (snd (batch_item e cfg el r s w))) \<and>
         detect_calls w (snd (batch_item e cfg el r s w)) = 0"
proof (rule batch_item_cases)
  show "prefix (trace w) (trace w) \<and> detect_calls w w = 0"
    by (simp add: detect_calls_same)
next
  fix a epc n l t
  show "prefix (trace w) (trace (snd (print_label e a epc n l t (print_mode cfg)
          (Some (printer_ip cfg)) (printer_port cfg) (printer_usb_name cfg) el w))) \<and>
        detect_calls w (snd (print_label e a epc n l t (print_mode cfg)
          (Some (printer_ip cfg)) (printer_port cfg) (printer_usb_name cfg) el w)) = 0"
    using assms print_label_effect [of e a epc n l t "print_mode cfg" "Some (printer_ip cfg)"
        "printer_port cfg" "printer_usb_name cfg" el w]
    by (simp add: truthy_def)
next
  fix a epc n l t d f x
  let ?w1 = "snd (print_label e a epc n l t (print_mode cfg)
          (Some (printer_ip cfg)) (printer_port cfg) (printer_usb_name cfg) el w)"
  have p: "prefix (trace w) (trace ?w1)" "detect_calls w ?w1 = 0"
    using assms print_label_effect [of e a epc n l t "print_mode cfg" "Some (printer_ip cfg)"
        "printer_port cfg" "printer_usb_name cfg" el w]
    by (simp_all add: truthy_def)
  have q: "prefix (trace ?w1) (trace (write_file d f x (next_tick ?w1)))"
    "detect_calls ?w1 (write_file d f x (next_tick ?w1)) = 0"
    using write_file_effect [of ?w1 d f x] by simp_all
  show "prefix (trace w) (trace (write_file d f x (next_tick ?w1))) \<and>
        detect_calls w (write_file d f x (next_tick ?w1)) = 0"
    using detect_calls_trans [OF p(1) q(1)] prefix_order.trans [OF p(1) q(1)] p(2) q(2)
    by simp
qed

lemma batch_loop_quiet:
  assumes "\<not> (el = lit ''auto'' \<and> print_mode cfg = lit ''network'' \<and> printer_ip cfg \<noteq> [])"
  shows "prefix (trace w) (trace (snd (batch_loop e cfg el rows s w))) \<and>
         detect_calls w (snd (batch_loop e cfg el rows s w)) = 0"
proof (induction rows arbitrary: s w)
  case Nil
  show ?case by (simp add: detect_calls_same)
next
  case (Cons r rs)
  let ?I = "batch_item e cfg el r s w"
  obtain res w1 where I: "?I = (res, w1)" by (cases ?I)
  then have w1: "w1 = snd ?I" by simp
  have p: "prefix (trace w) (trace w1)" "detect_calls w w1 = 0"
    using batch_item_quiet [OF assms, where w = w and e = e and r = r and s = s]
    by (simp_all add: w1)
  show ?case
  proof (cases res)
    case (Inl x)
    then show ?thesis using I p by simp
  next
    case (Inr s')
    have q: "prefix (trace w1) (trace (snd (batch_loop e cfg el rs s' w1)))"
      "detect_calls w1 (snd (batch_loop e cfg el rs s' w1)) = 0"
      using Cons.IH [of w1 s'] by simp_all
    show ?thesis
      using I Inr detect_calls_trans [OF p(1) q(1)] prefix_order.trans [OF p(1) q(1)] p(2) q(2)
      by simp
  qed
qed

lemma batch_worker_probe:
  assumes "printer_lang cfg = lit ''auto''" and "print_mode cfg = lit ''network''"
    and "printer_ip cfg \<noteq> []"
  shows "detect_calls w (snd (batch_worker e cfg rows w)) = 1 \<and>
         hd (new_events w (snd (batch_worker e cfg rows w))) =
           DetectCall (printer_ip cfg) (printer_port cfg)"
proof -
  let ?D = "detect_language e (printer_ip cfg) (printer_port cfg) w"
  obtain detected w1 where D: "?D = (Inr detected, w1)"
    using detect_returns by blast
  then have w1: "w1 = snd ?D" by simp
  define el where "el = (if detected = lit ''ipl'' then lit ''ipl'' else lit ''zpl'')"
  have el: "\<not> (el = lit ''auto'' \<and> print_mode cfg = lit ''network'' \<and> printer_ip cfg \<noteq> [])"
    by (simp add: el_def lang_names)
  let ?w2 = "snd (batch_loop e cfg el rows \<lparr>success = 0, errors = 0, skipped = 0\<rparr> w1)"
  have run: "snd (batch_worker e cfg rows w) = ?w2"
    using assms D by (simp add: batch_worker_def el_def)
  have p: "prefix (trace w) (trace w1)" "detect_calls w w1 = 1"
    "hd (new_events w w1) = DetectCall (printer_ip cfg) (printer_port cfg)"
    using detect_effect [of e "printer_ip cfg" "printer_port cfg" w] by (simp_all add: w1)
  have q: "prefix (trace w1) (trace ?w2)" "detect_calls w1 ?w2 = 0"
    using batch_loop_quiet [OF el] by simp_all
  have ne: "new_events w w1 \<noteq> []"
    using p(2) by (auto simp: detect_calls_def)
  have "hd (new_events w ?w2) = hd (new_events w w1)"
    using new_events_trans [OF p(1) q(1)] ne by simp
  then show ?thesis
    using detect_calls_trans [OF p(1) q(1)] p q run by simp
qed

lemma batch_worker_no_probe:
  assumes "\<not> (printer_lang cfg = lit ''auto'' \<and> print_mode cfg = lit ''network'' \<and>
             printer_ip cfg \<noteq> [])"
  shows "detect_calls w (snd (batch_worker e cfg rows w)) = 0"
proof -
  have "batch_worker e cfg rows w =
          batch_loop e cfg (printer_lang cfg) rows \<lparr>success = 0, errors = 0, skipped = 0\<rparr> w"
    using assms by (auto simp: batch_worker_def)
  then show ?thesis
    using batch_loop_quiet [OF assms] by simp
qed

text \<open>
  Claim C8: under \<open>auto\<close> in network mode with a host, \<open>print_label\<close> enters the
  detector exactly once and returns \<open>ipl\<close> when the detector says \<open>ipl\<close> and \<open>zpl\<close>
  otherwise, so \<open>unknown\<close> becomes \<open>zpl\<close>; under \<open>auto\<close> in USB mode it never
  enters the detector and returns \<open>zpl\<close>; the batch worker under \<open>auto\<close> in network
  mode with a host enters the detector exactly once, whatever the rows, and that call
  is the first thing it does; with any other settings the batch worker never enters
  the detector.
\<close>

theorem C8_language_resolution:
  "(h \<noteq> [] \<longrightarrow>
      detect_calls w (snd (print_label e a epc n l t (lit ''network'') (Some h) port pn (lit ''auto'') w)) = 1 \<and>
      (\<exists>ok msg. fst (print_label e a epc n l t (lit ''network'') (Some h) port pn (lit ''auto'') w) =
         Inr (ok, msg, if fst (detect_language e h port w) = Inr (lit ''ipl'')
                       then lit ''ipl'' else lit ''zpl'')) \<and>
      (fst (detect_language e h port w) = Inr (lit ''unknown'') \<longrightarrow>
         (\<exists>ok msg. fst (print_label e a epc n l t (lit ''network'') (Some h) port pn (lit ''auto'') w) =
            Inr (ok, msg, lit ''zpl'')))) \<and>
   detect_calls w (snd (print_label e a epc n l t (lit ''usb'') host port pn (lit ''auto'') w)) = 0 \<and>
   (\<exists>ok msg. fst (print_label e a epc n l t (lit ''usb'') host port pn (lit ''auto'') w) =
      Inr (ok, msg, lit ''zpl'')) \<and>
   (printer_lang cfg = lit ''auto'' \<and> print_mode cfg = lit ''network'' \<and> printer_ip cfg \<noteq> [] \<longrightarrow>
      detect_calls w (snd (batch_worker e cfg rows w)) = 1 \<and>
      hd (new_events w (snd (batch_worker e cfg rows w))) =
        DetectCall (printer_ip cfg) (printer_port cfg)) \<and>
   (\<not> (printer_lang cfg = lit ''auto'' \<and> print_mode cfg = lit ''network'' \<and> printer_ip cfg \<noteq> []) \<longrightarrow>
      detect_calls w (snd (batch_worker e cfg rows w)) = 0)"
proof -
  have net: "detect_calls w (snd (print_label e a epc n l t (lit ''network'') (Some h) port pn (lit ''auto'') w)) = 1 \<and>
      (\<exists>ok msg. fst (print_label e a epc n l t (lit ''network'') (Some h) port pn (lit ''auto'') w) =
         Inr (ok, msg, if fst (detect_language e h port w) = Inr (lit ''ipl'')
                       then lit ''ipl'' else lit ''zpl''))" if "h \<noteq> []"
    using that print_label_effect [of e a epc n l t "lit ''network''" "Some h" port pn "lit ''auto''" w]
      print_label_fst [of e a epc n l t "lit ''network''" "Some h" port pn "lit ''auto''" w]
    by (simp add: resolve_language_eq truthy_def)
  have unk: "\<exists>ok msg. fst (print_label e a epc n l t (lit ''network'') (Some h) port pn (lit ''auto'') w) =
            Inr (ok, msg, lit ''zpl'')"
    if "h \<noteq> []" and "fst (detect_language e h port w) = Inr (lit ''unknown'')"
    using net [OF that(1)] that(2) by (simp add: lang_names)
  have usb: "detect_calls w (snd (print_label e a epc n l t (lit ''usb'') host port pn (lit ''auto'') w)) = 0 \<and>
   (\<exists>ok msg. fst (print_label e a epc n l t (lit ''usb'') host port pn (lit ''auto'') w) =
      Inr (ok, msg, lit ''zpl''))"
    using print_label_effect [of e a epc n l t "lit ''usb''" host port pn "lit ''auto''" w]
      print_label_fst [of e a epc n l t "lit ''usb''" host port pn "lit ''auto''" w]
    by (simp add: resolve_language_eq lang_names)
  from net unk usb batch_worker_probe [of cfg w e rows] batch_worker_no_probe [of cfg w e rows]
  show ?thesis by blast
qed

lemma sample_settings:
  "printer_lang (net_settings lang) = lang" "print_mode (net_settings lang) = lit ''network''"
  "printer_ip (net_settings lang) = lit ''10.0.0.9''" "printer_port (net_settings lang) = 9100"
  "printer_usb_name (net_settings lang) = None" "export_dir (net_settings lang) = lit ''/exports''"
  "lit ''10.0.0.9'' \<noteq> []"
  by (simp_all add: net_settings_def lit_def)

text \<open>
  Claim C8 at a printer that refuses every connection, for one label and for a batch
  of two rows.
\<close>

theorem C8_language_resolution_witness:
  "lit ''10.0.0.9'' \<noteq> [] \<and>
   fst (detect_language (env_of (every_time (script_fails refused))) (lit ''10.0.0.9'') 9100 world0) =
     Inr (lit ''unknown'') \<and>
   detect_calls world0
     (snd (print_label (env_of (every_time (script_fails refused))) (lit ''A1'') None None None
             (lit ''Standard'') (lit ''network'') (Some (lit ''10.0.0.9'')) 9100 None (lit ''auto'') world0)) = 1 \<and>
   (\<exists>ok msg. fst (print_label (env_of (every_time (script_fails refused))) (lit ''A1'') None None None
             (lit ''Standard'') (lit ''network'') (Some (lit ''10.0.0.9'')) 9100 None (lit ''auto'') world0) =
        Inr (ok, msg, lit ''zpl'')) \<and>
   printer_lang (net_settings (lit ''auto'')) = lit ''auto'' \<and>
   print_mode (net_settings (lit ''auto'')) = lit ''network'' \<and>
   printer_ip (net_settings (lit ''auto'')) \<noteq> [] \<and>
   detect_calls world0
     (snd (batch_worker (env_of (every_time (script_fails refused))) (net_settings (lit ''auto''))
             [row_of (lit ''A1''), row_of (lit ''A2'')] world0)) = 1 \<and>
   hd (new_events world0
     (snd (batch_worker (env_of (every_time (script_fails refused))) (net_settings (lit ''auto''))
             [row_of (lit ''A1''), row_of (lit ''A2'')] world0))) = DetectCall (lit ''10.0.0.9'') 9100"
proof -
  have u: "fst (detect_language (env_of (every_time (script_fails refused))) (lit ''10.0.0.9'') 9100 world0) =
     Inr (lit ''unknown'')"
    by (simp add: fst_detect sample_scripts script_fails_def)
  show ?thesis
    using u sample_settings
      C8_language_resolution [where h = "lit ''10.0.0.9''" and w = world0
        and e = "env_of (every_time (script_fails refused))" and a = "lit ''A1''" and epc = None
        and n = None and l = None and t = "lit ''Standard''" and port = 9100 and pn = None
        and host = None and cfg = "net_settings (lit ''auto'')"
        and rows = "[row_of (lit ''A1''), row_of (lit ''A2'')]"]
    by simp
qed

lemma py_lower_names: "py_lower (lit ''zpl'') = lit ''zpl''" "py_lower (lit ''ipl'') = lit ''ipl''"
  by (simp_all add: py_lower_def lit_def)

text \<open>
  Claim C4, as stated, at \<open>print_label\<close> with the empty asset id: nothing rejects the
  request; the label is rendered, the connection is opened and the bytes are sent. And
  at a batch row with a blank asset id whose line stops after the asset id, so that its
  \<open>epc\<close> is \<open>None\<close>: \<open>strip\<close> raises \<open>AttributeError\<close> before the asset id is tested,
  and the row is not counted as skipped.
\<close>

theorem C4_print_label_counterexample:
  "fst (print_label (env_of (every_time (script_reply []))) [] None None None (lit ''Standard'')
          (lit ''network'') (Some (lit ''10.0.0.9'')) 9100 None (lit ''zpl'') world0) =
     Inr (True, lit ''OK'', lit ''zpl'') \<and>
   trace (snd (print_label (env_of (every_time (script_reply []))) [] None None None (lit ''Standard'')
          (lit ''network'') (Some (lit ''10.0.0.9'')) 9100 None (lit ''zpl'') world0)) =
     [Connect (lit ''10.0.0.9'') 9100,
      SendAll (encode_latin1 (zpl [] None None None (lit ''Standard'') noon))] \<and>
   row_get (short_row (lit '' '')) (lit ''asset_id'') [] = Some (lit '' '') \<and>
   py_strip (lit '' '') = [] \<and>
   row_get (short_row (lit '' '')) (lit ''epc'') [] = None \<and>
   fst (batch_item (env_of (every_time (script_reply []))) (net_settings (lit ''zpl'')) (lit ''zpl'')
          (short_row (lit '' '')) \<lparr>success = 0, errors = 0, skipped = 0\<rparr> world0) =
     Inl (no_attribute (lit ''strip''))"
proof -
  have p: "fst (print_label (env_of (every_time (script_reply []))) [] None None None (lit ''Standard'')
          (lit ''network'') (Some (lit ''10.0.0.9'')) 9100 None (lit ''zpl'') world0) =
     Inr (True, lit ''OK'', lit ''zpl'') \<and>
   trace (snd (print_label (env_of (every_time (script_reply []))) [] None None None (lit ''Standard'')
          (lit ''network'') (Some (lit ''10.0.0.9'')) 9100 None (lit ''zpl'') world0)) =
     [Connect (lit ''10.0.0.9'') 9100,
      SendAll (encode_latin1 (zpl [] None None None (lit ''Standard'') noon))]"
    by (simp add: print_label_def resolve_language_def read_clock_def print_network_def
      print_network_try_def env_of_def every_time_def script_reply_def world0_def emit_def
      next_tick_def Let_def lang_names py_lower_names truthy_def sample_settings)
  have r: "row_get (short_row a) (lit ''asset_id'') d = Some a"
    "row_get (short_row a) (lit ''epc'') d = None" for a d
    by (simp_all add: row_get_def short_row_def lit_def)
  have b: "py_strip (lit '' '') = []"
    by (simp add: py_strip_def py_isspace_def lit_def)
  have q: "fst (batch_item e cfg el (short_row a) s w) = Inl (no_attribute (lit ''strip''))"
    for e cfg el a s w
    by (simp add: batch_item_def r strip_method_def)
  from p r b q show ?thesis by simp
qed

text \<open>
  Claim C4, amended: a request of the read/encode panel whose asset id is empty after
  \<open>strip\<close> returns at once and leaves the world as it was: nothing is rendered, sent
  or written. A batch row whose asset id is a string that is empty after \<open>strip\<close>
  leaves the world as it was, and when its \<open>epc\<close> is a string too, the row is counted
  as skipped.
\<close>

theorem C4_empty_asset_id_rejected:
  "(py_strip (v_asset_id f) = [] \<longrightarrow> ReadEncodePanel_print_label e f cfg w = (Inr None, w)) \<and>
   (row_get r (lit ''asset_id'') [] = Some a \<and> py_strip a = [] \<longrightarrow>
      snd (batch_item e cfg el r s w) = w \<and>
      (row_get r (lit ''epc'') [] = Some c \<longrightarrow>
         fst (batch_item e cfg el r s w) = Inr (s\<lparr>skipped := skipped s + 1\<rparr>)))"
  by (auto simp: ReadEncodePanel_print_label_def batch_item_def strip_method_def Let_def
      split: option.splits)

text \<open>
  Claim C4, amended, at a form and at a row whose asset id is blank.
\<close>

theorem C4_empty_asset_id_rejected_witness:
  "py_strip (v_asset_id \<lparr>v_asset_id = lit ''  '', v_epc = [], v_name = lit ''Pump'', v_location = [],
                          v_tag_type = lit ''Standard (Plastic)''\<rparr>) = [] \<and>
   ReadEncodePanel_print_label (env_of (every_time (script_reply [])))
     \<lparr>v_asset_id = lit ''  '', v_epc = [], v_name = lit ''Pump'', v_location = [],
      v_tag_type = lit ''Standard (Plastic)''\<rparr> (net_settings (lit ''zpl'')) world0 = (Inr None, world0) \<and>
   row_get (row_of (lit '' '')) (lit ''asset_id'') [] = Some (lit '' '') \<and> py_strip (lit '' '') = [] \<and>
   row_get (row_of (lit '' '')) (lit ''epc'') [] = Some [] \<and>
   batch_item (env_of (every_time (script_reply []))) (net_settings (lit ''zpl'')) (lit ''zpl'')
     (row_of (lit '' '')) \<lparr>success = 0, errors = 0, skipped = 0\<rparr> world0 =
     (Inr \<lparr>success = 0, errors = 0, skipped = 1\<rparr>, world0)"
proof -
  have s: "py_strip (lit ''  '') = []" "py_strip (lit '' '') = []"
    by (simp_all add: py_strip_def py_isspace_def lit_def)
  have r: "row_get (row_of (lit '' '')) (lit ''asset_id'') [] = Some (lit '' '')"
    "row_get (row_of (lit '' '')) (lit ''epc'') [] = Some []"
    by (simp_all add: row_get_def row_of_def lit_def)
  show ?thesis
    using s r
      C4_empty_asset_id_rejected [where f = "\<lparr>v_asset_id = lit ''  '', v_epc = [], v_name = lit ''Pump'',
          v_location = [], v_tag_type = lit ''Standard (Plastic)''\<rparr>"
        and e = "env_of (every_time (script_reply []))" and cfg = "net_settings (lit ''zpl'')"
        and w = world0 and r = "row_of (lit '' '')" and a = "lit '' ''" and c = "[]"
        and el = "lit ''zpl''" and s = "\<lparr>success = 0, errors = 0, skipped = 0\<rparr>"]
    by (simp add: prod_eq_iff)
qed

section \<open>Properties of the batch worker\<close>

lemma row_of_get:
  "row_get (row_of a) (lit ''asset_id'') d = Some a"
  "row_get (row_of a) (lit ''epc'') d = Some []"
  "row_get (row_of a) (lit ''type'') d = Some (lit ''Standard (Plastic)'')"
  "row_get (row_of a) (lit ''name'') d = Some d"
  "row_get (row_of a) (lit ''location'') d = Some d"
  by (simp_all add: row_get_def row_of_def lit_def)

lemma short_row_get:
  "row_get (short_row a) (lit ''asset_id'') d = Some a"
  "row_get (short_row a) (lit ''epc'') d = None"
  by (simp_all add: row_get_def short_row_def lit_def)

lemma sample_strips:
  "py_strip (lit ''A1'') = lit ''A1''" "py_strip (lit ''A3'') = lit ''A3''" "py_strip [] = []"
  "py_strip (split_paren (lit ''Standard (Plastic)'')) = lit ''Standard''"
  "lit ''A1'' \<noteq> []" "lit ''A3'' \<noteq> []"
  by (simp_all add: py_strip_def py_isspace_def split_paren_def lit_def)

lemma print_label_explicit_network:
  assumes "language = lit ''zpl'' \<or> language = lit ''ipl''" and "h \<noteq> []"
  shows "print_label e a epc n l t (lit ''network'') (Some h) port pn language w =
     (Inr (fst (projr (fst (print_network e h
              (if language = lit ''ipl'' then ipl a epc n l t (clock e (tick w))
               else zpl a epc n l t (clock e (tick w))) port (next_tick w)))),
           snd (projr (fst (print_network e h
              (if language = lit ''ipl'' then ipl a epc n l t (clock e (tick w))
               else zpl a epc n l t (clock e (tick w))) port (next_tick w)))),
           language),
      snd (print_network e h
              (if language = lit ''ipl'' then ipl a epc n l t (clock e (tick w))
               else zpl a epc n l t (clock e (tick w))) port (next_tick w)))"
proof -
  let ?d = "if language = lit ''ipl'' then ipl a epc n l t (clock e (tick w))
               else zpl a epc n l t (clock e (tick w))"
  obtain r w3 where N: "print_network e h ?d port (next_tick w) = (Inr r, w3)"
    using print_network_returns by blast
  obtain ok msg where r: "r = (ok, msg)" by (cases r)
  have l: "language \<noteq> lit ''auto''" "py_lower language = language"
    using assms(1) by (auto simp: lang_names py_lower_names)
  show ?thesis
    using assms(2) N r l
    by (simp add: print_label_def resolve_language_def read_clock_def truthy_def Let_def
        split del: if_split)
qed

lemma net_every_time: "net (env_of (every_time sc)) k = sc"
  by (simp add: env_of_def every_time_def)

lemma batch_item_run:
  assumes "py_strip a = a" and "a \<noteq> []" and "el = lit ''zpl'' \<or> el = lit ''ipl''"
  shows "batch_item e (net_settings L) el (row_of a) s w =
     (let N = print_network e (lit ''10.0.0.9'')
                (if el = lit ''ipl'' then ipl a None (Some []) (Some []) (lit ''Standard'') (clock e (tick w))
                 else zpl a None (Some []) (Some []) (lit ''Standard'') (clock e (tick w)))
                9100 (next_tick w)
      in if fst (projr (fst N))
         then (Inr (s\<lparr>success := success s + 1\<rparr>),
               write_file (lit ''/exports'') (a @ lit ''.'' @ el)
                 (if el = lit ''ipl''
                  then ipl a None (Some []) (Some []) (lit ''Standard'') (clock e (tick (snd N)))
                  else zpl a None (Some []) (Some []) (lit ''Standard'') (clock e (tick (snd N))))
                 (next_tick (snd N)))
         else (Inr (s\<lparr>errors := errors s + 1\<rparr>), snd N))"
  using assms
  by (auto simp: batch_item_def row_of_get strip_method_def split_strip_method_def sample_strips
      print_label_explicit_network sample_settings read_clock_def Let_def lang_names)

lemma batch_item_short:
  "batch_item e cfg el (short_row a) s w = (Inl (no_attribute (lit ''strip'')), w)"
  by (simp add: batch_item_def short_row_get strip_method_def)

lemma batch_item_blank:
  "py_strip a = [] \<Longrightarrow>
   batch_item e cfg el (row_of a) s w = (Inr (s\<lparr>skipped := skipped s + 1\<rparr>), w)"
  by (simp add: batch_item_def row_of_get strip_method_def sample_strips Let_def)

lemma accepted:
  "fst (print_network (env_of (every_time (script_reply []))) h d p w) = Inr (True, lit ''OK'')"
  by (simp add: fst_print_network net_every_time script_reply_def first_raise_def)

lemma rejected:
  "fst (print_network (env_of (every_time (script_fails refused))) h d p w) =
     Inr (print_network_except h p refused)"
  "\<not> fst (print_network_except h p refused)"
  by (simp_all add: fst_print_network net_every_time script_fails_def first_raise_def
      print_network_except_def refused_def)

lemma batch_worker_explicit:
  "L \<noteq> lit ''auto'' \<Longrightarrow>
   batch_worker e (net_settings L) rows w =
     batch_loop e (net_settings L) L rows \<lparr>success = 0, errors = 0, skipped = 0\<rparr> w"
  by (simp add: batch_worker_def sample_settings)

text \<open>
  Three rows, the second with a blank asset id, on a printer that accepts every label:
  two printed, none failed, one skipped.
\<close>

lemma batch_example:
  "fst (batch_worker (env_of (every_time (script_reply []))) (net_settings (lit ''zpl''))
          [row_of (lit ''A1''), row_of [], row_of (lit ''A3'')] world0) =
     Inr \<lparr>success = 2, errors = 0, skipped = 1\<rparr>"
  by (simp add: batch_worker_explicit lang_names batch_item_run batch_item_blank sample_strips
      accepted Let_def)

text \<open>
  When the loop runs to its end, every row has been counted exactly once.
\<close>

lemma batch_item_counts:
  assumes "fst (batch_item e cfg el r s w) = Inr s'"
  shows "success s' + errors s' + skipped s' = success s + errors s + skipped s + 1"
  using assms
  by (auto simp: batch_item_def Let_def read_clock_def split: sum.splits prod.splits if_splits)

lemma batch_loop_counts:
  assumes "fst (batch_loop e cfg el rows s w) = Inr s'"
  shows "success s' + errors s' + skipped s' = success s + errors s + skipped s + length rows"
  using assms
proof (induction rows arbitrary: s w)
  case Nil
  then show ?case by simp
next
  case (Cons r rs)
  obtain res w1 where I: "batch_item e cfg el r s w = (res, w1)"
    by (cases "batch_item e cfg el r s w")
  show ?case
  proof (cases res)
    case (Inl x)
    with Cons.prems I show ?thesis by simp
  next
    case (Inr s1)
    with Cons.prems I have "fst (batch_loop e cfg el rs s1 w1) = Inr s'" by simp
    then have "success s' + errors s' + skipped s' =
               success s1 + errors s1 + skipped s1 + length rs"
      by (rule Cons.IH)
    moreover have "success s1 + errors s1 + skipped s1 = success s + errors s + skipped s + 1"
      using I Inr batch_item_counts [of e cfg el r s w s1] by simp
    ultimately show ?thesis by simp
  qed
qed

text \<open>
  Claim C9 at a batch of three rows on a printer that accepts every label, where the
  second row comes from a CSV line that stops after the asset id, so that its \<open>epc\<close> is
  \<open>None\<close>: \<open>strip\<close> raises \<open>AttributeError\<close>, nothing catches it, and the worker ends
  without a summary and without reaching the third row.
\<close>

theorem C9_short_row_aborts_batch:
  "fst (batch_worker (env_of (every_time (script_reply []))) (net_settings (lit ''zpl''))
          [row_of (lit ''A1''), short_row (lit ''A2''), row_of (lit ''A3'')] world0) =
     Inl (no_attribute (lit ''strip''))"
  by (simp add: batch_worker_explicit lang_names batch_item_run batch_item_short sample_strips
      accepted Let_def)

lemma refused_world:
  "snd (print_network (env_of (every_time (script_fails x))) h d p w) =
     w\<lparr>tick := Suc (tick w), trace := trace w @ [Connect h p]\<rparr>"
  by (simp add: snd_print_network net_every_time script_fails_def)

text \<open>
  Claim C1 at a batch of one row on a printer that refuses the connection: the item is
  counted as failed, the connection was attempted, and no label file has been written.
\<close>

theorem C1_failed_batch_item_leaves_no_backup:
  "fst (batch_worker (env_of (every_time (script_fails refused))) (net_settings (lit ''zpl''))
          [row_of (lit ''A1'')] world0) =
     Inr \<lparr>success = 0, errors = 1, skipped = 0\<rparr> \<and>
   trace (snd (batch_worker (env_of (every_time (script_fails refused))) (net_settings (lit ''zpl''))
          [row_of (lit ''A1'')] world0)) = [Connect (lit ''10.0.0.9'') 9100] \<and>
   files (snd (batch_worker (env_of (every_time (script_fails refused))) (net_settings (lit ''zpl''))
          [row_of (lit ''A1'')] world0)) = Map.empty"
  by (simp add: batch_worker_explicit lang_names batch_item_run sample_strips rejected Let_def
      refused_world next_tick_def world0_def)

section \<open>Properties of the read/encode panel\<close>

text \<open>
  The panel writes its label file after every attempt, whatever the outcome; the
  extension and the dialect of the file follow the language setting.
\<close>

lemma panel_backup_written:
  assumes "py_strip (v_asset_id f) \<noteq> []"
  shows "\<exists>now. files (snd (ReadEncodePanel_print_label e f cfg w))
           (export_dir cfg,
            py_strip (v_asset_id f) @ lit ''.'' @
              (if printer_lang cfg = lit ''ipl'' then lit ''ipl'' else lit ''zpl'')) =
         Some ((if printer_lang cfg = lit ''ipl'' then ipl else zpl)
                 (py_strip (v_asset_id f)) (Some (py_strip (v_epc f))) (Some (v_name f))
                 (Some (v_location f)) (py_strip (split_paren (v_tag_type f))) now)"
proof -
  let ?P = "print_label e (py_strip (v_asset_id f))
              (if py_strip (v_epc f) = [] then None else Some (py_strip (v_epc f)))
              (Some (v_name f)) (Some (v_location f)) (py_strip (split_paren (v_tag_type f)))
              (print_mode cfg) (Some (printer_ip cfg)) (printer_port cfg)
              (printer_usb_name cfg) (printer_lang cfg) w"
  obtain ok msg lang_used where "fst ?P = Inr (ok, msg, lang_used)"
    using print_label_fst by blast
  then obtain w1 where P: "?P = (Inr (ok, msg, lang_used), w1)"
    by (cases ?P) simp
  show ?thesis
    using assms
    by (simp add: ReadEncodePanel_print_label_def Let_def P read_clock_def write_file_def emit_def
        lang_names split del: if_split) (auto simp: lang_names)
qed

text \<open>
  Under \<open>auto\<close>, on a printer that answers the probe with \<open>0x02\<close>, the panel sends IPL
  and reports \<open>ipl\<close>, and the file it writes is \<open>A1.zpl\<close> with the ZPL rendering.
\<close>

lemma panel_auto_backup_differs:
  "fst (ReadEncodePanel_print_label (env_of (every_time (script_reply [0x02])))
          \<lparr>v_asset_id = lit ''A1'', v_epc = [], v_name = [], v_location = [],
           v_tag_type = lit ''Standard (Plastic)''\<rparr> (net_settings (lit ''auto'')) world0) =
     Inr (Some (True, lit ''OK'', lit ''ipl'')) \<and>
   files (snd (ReadEncodePanel_print_label (env_of (every_time (script_reply [0x02])))
          \<lparr>v_asset_id = lit ''A1'', v_epc = [], v_name = [], v_location = [],
           v_tag_type = lit ''Standard (Plastic)''\<rparr> (net_settings (lit ''auto'')) world0))
     (lit ''/exports'', lit ''A1'' @ lit ''.'' @ lit ''zpl'') =
     Some (zpl (lit ''A1'') (Some []) (Some []) (Some []) (lit ''Standard'') noon) \<and>
   files (snd (ReadEncodePanel_print_label (env_of (every_time (script_reply [0x02])))
          \<lparr>v_asset_id = lit ''A1'', v_epc = [], v_name = [], v_location = [],
           v_tag_type = lit ''Standard (Plastic)''\<rparr> (net_settings (lit ''auto'')) world0))
     (lit ''/exports'', lit ''A1'' @ lit ''.'' @ lit ''ipl'') = None"
proof -
  let ?e = "env_of (every_time (script_reply [0x02]))"
  let ?ip = "lit ''10.0.0.9''"
  let ?P = "print_label ?e (lit ''A1'') None (Some []) (Some []) (lit ''Standard'')
              (lit ''network'') (Some ?ip) 9100 None (lit ''auto'') world0"
  have det: "fst (detect_language ?e ?ip 9100 world0) = Inr (lit ''ipl'')"
    by (simp add: fst_detect net_every_time script_reply_def classify_response_def)
  have sent: "fst (print_network ?e h d p w) = Inr (True, lit ''OK'')" for h d p w
    by (simp add: fst_print_network net_every_time script_reply_def first_raise_def)
  have "fst ?P = Inr (True, lit ''OK'', lit ''ipl'')"
    using sent
    by (simp add: print_label_def resolve_language_eq det truthy_def sample_settings read_clock_def
        Let_def split_beta)
  then obtain w1 where P: "?P = (Inr (True, lit ''OK'', lit ''ipl''), w1)"
    by (cases ?P) simp
  have files: "files w1 = Map.empty"
    using print_label_effect [of ?e "lit ''A1''" None "Some []" "Some []" "lit ''Standard''"
        "lit ''network''" "Some ?ip" 9100 None "lit ''auto''" world0] P
    by (simp add: world0_def)
  have clock: "clock ?e k = noon" for k
    by (simp add: env_of_def)
  have names: "lit ''ipl'' \<noteq> lit ''zpl''"
    by (simp add: lit_def)
  show ?thesis
    by (simp add: ReadEncodePanel_print_label_def Let_def sample_strips sample_settings P
        read_clock_def write_file_def emit_def next_tick_def lang_names names files clock)
qed

section \<open>The RFID directive\<close>

text \<open>Looking for a directive in an output, one piece of the output at a time.\<close>

lemma walk_piece:
  assumes "\<not> sublist (x # pat) a" and "c \<notin> set pat"
  shows "sublist (x # pat) (a @ c # r) = sublist (x # pat) (c # r)"
proof
  assume "sublist (x # pat) (a @ c # r)"
  then consider "sublist (x # pat) a" | "sublist (x # pat) (c # r)"
    | p1 p2 where "x # pat = p1 @ p2" "suffix p1 a" "prefix p2 (c # r)"
    by (auto simp: sublist_append)
  then show "sublist (x # pat) (c # r)"
  proof cases
    case 1
    with assms(1) show ?thesis by simp
  next
    case 2
    then show ?thesis .
  next
    case 3
    show ?thesis
    proof (cases p1)
      case Nil
      with 3 have "prefix (x # pat) (c # r)" by simp
      then show ?thesis by (rule prefix_imp_sublist)
    next
      case (Cons y p1')
      with 3(1) have pat: "pat = p1' @ p2" by simp
      show ?thesis
      proof (cases p2)
        case Nil
        with 3 have "suffix (x # pat) a" by simp
        then have "sublist (x # pat) a" by (rule suffix_imp_sublist)
        with assms(1) show ?thesis by simp
      next
        case (Cons z p2')
        with 3(3) have "z = c" by simp
        with Cons pat have "c \<in> set pat" by simp
        with assms(2) show ?thesis by simp
      qed
    qed
  qed
next
  assume "sublist (x # pat) (c # r)"
  then show "sublist (x # pat) (a @ c # r)"
    by (simp add: sublist_append)
qed

lemma walk_at: "sublist (x # pat) (x # r) = (prefix pat r \<or> sublist (x # pat) r)"
  by (simp add: sublist_code(3))

lemma walk_char: "c \<noteq> x \<Longrightarrow> sublist (x # pat) (c # r) = sublist (x # pat) r"
  by (simp add: sublist_code(3))

lemma walk_end: "\<not> sublist (x # pat) []"
  by simp

lemma absent_head: "x \<notin> set a \<Longrightarrow> \<not> sublist (x # pat) a"
  by (auto dest: set_mono_sublist)

lemma in_suffix: "suffix (p @ rest) out \<Longrightarrow> sublist p out"
  by (auto simp: suffix_def sublist_def)

text \<open>
  An escaping that maps a code point to itself or to a text outside \<open>Q\<close> neither creates
  nor completes a text made of code points of \<open>Q\<close>.
\<close>

lemma escaped_prefix:
  assumes esc: "\<And>c. f c = [c] \<or> (f c \<noteq> [] \<and> set (f c) \<inter> Q = {})"
    and "set p \<subseteq> Q" and "prefix p (concat (map f s))"
  shows "prefix p s"
  using assms(2,3)
proof (induction s arbitrary: p)
  case Nil
  then show ?case by simp
next
  case (Cons c s)
  show ?case
  proof (cases p)
    case Nil
    then show ?thesis by simp
  next
    case p: (Cons x p')
    from esc [of c] show ?thesis
    proof
      assume same: "f c = [c]"
      with Cons.prems p have "x = c" and "prefix p' (concat (map f s))" by simp_all
      moreover from Cons.prems(1) p have "set p' \<subseteq> Q" by simp
      ultimately show ?thesis using Cons.IH [of p'] p by simp
    next
      assume other: "f c \<noteq> [] \<and> set (f c) \<inter> Q = {}"
      then obtain y ys where fc: "f c = y # ys" by (cases "f c") auto
      with Cons.prems(2) p have "x = y" by simp
      moreover from Cons.prems(1) p have "x \<in> Q" by simp
      ultimately show ?thesis using other fc by auto
    qed
  qed
qed

lemma escaped_sublist:
  assumes esc: "\<And>c. f c = [c] \<or> (f c \<noteq> [] \<and> set (f c) \<inter> Q = {})"
    and q: "set p \<subseteq> Q" and ne: "p \<noteq> []" and "sublist p (concat (map f s))"
  shows "sublist p s"
  using assms(4)
proof (induction s)
  case Nil
  with ne show ?case by simp
next
  case (Cons c s)
  from Cons.prems have "sublist p (f c @ concat (map f s))" by simp
  then consider "sublist p (f c)" | "sublist p (concat (map f s))"
    | p1 p2 where "p = p1 @ p2" "suffix p1 (f c)" "prefix p2 (concat (map f s))"
    by (auto simp: sublist_append)
  then show ?case
  proof cases
    case 1
    from esc [of c] show ?thesis
    proof
      assume "f c = [c]"
      with 1 ne have "p = [c]" by (cases p) (auto simp: sublist_Cons_right)
      then show ?thesis by (simp add: sublist_code(3))
    next
      assume other: "f c \<noteq> [] \<and> set (f c) \<inter> Q = {}"
      from 1 have "set p \<subseteq> set (f c)" by (rule set_mono_sublist)
      with q other ne show ?thesis by (cases p) auto
    qed
  next
    case 2
    then have "sublist p s" by (rule Cons.IH)
    then show ?thesis by (simp add: sublist_Cons_right)
  next
    case 3
    from 3(1) q have q2: "set p2 \<subseteq> Q" by simp
    have p2: "prefix p2 s"
      using esc q2 3(3) by (rule escaped_prefix)
    show ?thesis
    proof (cases p1)
      case Nil
      with 3(1) p2 have "prefix p s" by simp
      then have "sublist p s" by (rule prefix_imp_sublist)
      then show ?thesis by (simp add: sublist_Cons_right)
    next
      case (Cons y p1')
      from esc [of c] show ?thesis
      proof
        assume "f c = [c]"
        with 3(2) Cons have "p1 = [c]" by (auto simp: suffix_Cons)
        with 3(1) p2 have "prefix p (c # s)" by simp
        then show ?thesis by (rule prefix_imp_sublist)
      next
        assume other: "f c \<noteq> [] \<and> set (f c) \<inter> Q = {}"
        from 3(2) have "set p1 \<subseteq> set (f c)" by (rule set_mono_suffix)
        moreover from 3(1) q Cons have "y \<in> Q" and "y \<in> set p1" by simp_all
        ultimately show ?thesis using other by auto
      qed
    qed
  qed
qed

lemma hex_digit_range:
  "d < 16 \<Longrightarrow> (48 \<le> hex_digit d \<and> hex_digit d \<le> 57) \<or> (97 \<le> hex_digit d \<and> hex_digit d \<le> 102)"
  by (auto simp: hex_digit_def)

lemma hex4_range:
  "c \<in> set (hex4 n) \<Longrightarrow> (48 \<le> c \<and> c \<le> 57) \<or> (97 \<le> c \<and> c \<le> 102)"
  using hex_digit_range [of "n div 4096 mod 16"] hex_digit_range [of "n div 256 mod 16"]
    hex_digit_range [of "n div 16 mod 16"] hex_digit_range [of "n mod 16"]
  by (auto simp: hex4_def)

lemma json_escape_outside:
  "json_escape_char c = [c] \<or>
   (json_escape_char c \<noteq> [] \<and> set (json_escape_char c) \<inter> set (lit ''^RFWM,'') = {})"
proof -
  have h: "x \<in> set (hex4 n) \<Longrightarrow> x \<notin> set (lit ''^RFWM,'')" for x n
    using hex4_range [of x n] by (auto simp: lit_def)
  show ?thesis
    by (auto simp: json_escape_char_def lit_def dest: h [unfolded lit_def, simplified])
qed

lemma json_escaped_lacks:
  assumes "\<not> sublist (lit ''^RFWM,'') s"
  shows "\<not> sublist (lit ''^RFWM,'') (concat (map json_escape_char s))"
proof
  assume "sublist (lit ''^RFWM,'') (concat (map json_escape_char s))"
  moreover have "set (lit ''^RFWM,'') \<subseteq> set (lit ''^RFWM,'')" and "lit ''^RFWM,'' \<noteq> []"
    by (simp_all add: lit_def)
  ultimately have "sublist (lit ''^RFWM,'') s"
    using escaped_sublist [of json_escape_char "set (lit ''^RFWM,'')" "lit ''^RFWM,''" s]
      json_escape_outside
    by blast
  with assms show False by simp
qed

lemma dec_digits: "c \<in> set (dec n) \<Longrightarrow> 48 \<le> c \<and> c \<le> 57"
proof (induction n rule: dec.induct)
  case (1 n)
  show ?case
  proof (cases "n < 10")
    case True
    with "1.prems" show ?thesis by (simp add: dec.simps [of n])
  next
    case False
    with "1.prems" have "c \<in> set (dec (n div 10)) \<or> c = 48 + n mod 10"
      by (auto simp: dec.simps [of n])
    then show ?thesis
    proof
      assume "c \<in> set (dec (n div 10))"
      with False "1.IH" show ?thesis by simp
    next
      assume "c = 48 + n mod 10"
      moreover have "n mod 10 < 10" by simp
      ultimately show ?thesis by linarith
    qed
  qed
qed

lemma strftime_chars: "c \<in> set (strftime_ymdhm t) \<Longrightarrow> c < 59"
  by (auto simp: strftime_ymdhm_def zfill_def lit_def dest: dec_digits)

lemma strftime_lacks: "59 \<le> x \<Longrightarrow> \<not> sublist (x # pat) (strftime_ymdhm t)"
  using strftime_chars [of x t] by (intro absent_head) auto

lemma lacks_take: "\<not> sublist p s \<Longrightarrow> \<not> sublist p (take k s)"
proof
  assume "\<not> sublist p s" and "sublist p (take k s)"
  moreover have "sublist (take k s) s"
    by (rule prefix_imp_sublist) (rule take_is_prefix)
  ultimately show False
    by (meson sublist_order.order_trans)
qed

lemma lacks_py_or: "lacks_opt p v \<Longrightarrow> \<not> sublist p d \<Longrightarrow> \<not> sublist p (py_or v d)"
  by (simp add: lacks_opt_def py_or_def split: option.splits)

lemma py_or_falsy: "\<not> truthy v \<Longrightarrow> py_or v d = d"
  by (simp add: truthy_def py_or_def split: option.splits)

lemmas walk = walk_piece walk_at walk_char walk_end

lemma zpl_no_directive:
  assumes "\<not> truthy epc" and a: "\<not> sublist (lit ''^RFWM,'') a" and "lacks_opt (lit ''^RFWM,'') n"
    and "lacks_opt (lit ''^RFWM,'') l" and t: "\<not> sublist (lit ''^RFWM,'') t"
  shows "\<not> contains_text (lit ''^RFWM,'') (zpl a epc n l t now)"
proof -
  have dash: "\<not> sublist (lit ''^RFWM,'') EM_DASH"
    by (simp add: lit_def sublist_code(3))
  have f: "\<not> sublist (lit ''^RFWM,'') (take 30 (py_or n a))"
    "\<not> sublist (lit ''^RFWM,'') (py_or l EM_DASH)"
    "\<not> sublist (lit ''^RFWM,'') (concat (map json_escape_char a))"
    "\<not> sublist (lit ''^RFWM,'') (strftime_ymdhm now)"
    using assms dash
    by (simp_all add: lacks_py_or lacks_take json_escaped_lacks)
      (simp add: lit_def strftime_lacks)
  show ?thesis
    using assms(1) a t f
    by (simp add: contains_text_def zpl_def Let_def py_or_falsy json_str_def json_escape_char_def
        lit_def walk)
qed

lemma zpl_directive:
  assumes "truthy epc"
  shows "contains_text (lit ''^RFWM,'') (zpl a epc n l t now)"
proof -
  have "suffix (lit ''^RFWM,'' @ fstr epc @ NL @ lit ''^XZ'' @ NL) (zpl a epc n l t now)"
    using assms by (simp add: zpl_def Let_def suffix_to_prefix)
  then show ?thesis
    unfolding contains_text_def by (rule in_suffix)
qed

lemma ipl_no_directive:
  assumes "\<not> truthy epc" and a: "\<not> sublist (lit ''R 1,E200,'') a"
    and "lacks_opt (lit ''R 1,E200,'') n" and "lacks_opt (lit ''R 1,E200,'') l"
    and t: "\<not> sublist (lit ''R 1,E200,'') t"
  shows "\<not> contains_text (lit ''R 1,E200,'') (ipl a epc n l t now)"
proof -
  have dash: "\<not> sublist (lit ''R 1,E200,'') EM_DASH"
    by (simp add: lit_def sublist_code(3))
  have f: "\<not> sublist (lit ''R 1,E200,'') (take 28 (py_or n a))"
    "\<not> sublist (lit ''R 1,E200,'') (py_or l EM_DASH)"
    "\<not> sublist (lit ''R 1,E200,'') (strftime_ymdhm now)"
    using assms dash
    by (simp_all add: lacks_py_or lacks_take)
      (simp add: lit_def strftime_lacks)
  show ?thesis
    using assms(1) a t f
    by (simp add: contains_text_def ipl_def Let_def py_or_falsy lit_def walk)
qed

lemma ipl_directive:
  assumes "truthy epc"
  shows "contains_text (lit ''R 1,E200,'') (ipl a epc n l t now)"
proof -
  have "suffix (lit ''R 1,E200,'' @ py_or epc (lit ''0000000000000000000000'') @ CRLF @
                lit ''P 1'' @ CRLF @ ETX) (ipl a epc n l t now)"
    using assms by (simp add: ipl_def Let_def suffix_to_prefix)
  then show ?thesis
    unfolding contains_text_def by (rule in_suffix)
qed

lemma LabelGenerator_ending:
  "suffix (lit ''^RFWM,'' @ py_or epc (lit ''0000000000000000000000'') @ NL @ lit ''^XZ'')
     (LabelGenerator_zpl a epc n l t now)"
  by (simp add: LabelGenerator_zpl_def Let_def suffix_to_prefix)

text \<open>
  Claim C3, as stated, at two labels without a tag payload: the output of
  \<open>LabelGenerator.zpl\<close> has the RFID-write directive all the same, and so has the
  output of \<open>HoneywellPrinter.zpl\<close> when the name of the asset carries the text of the
  directive.
\<close>

theorem C3_directive_counterexample:
  "\<not> truthy None \<and>
   contains_text (lit ''^RFWM,'')
     (LabelGenerator_zpl (lit ''A1'') None None None (lit ''Standard'') noon) \<and>
   contains_text (lit ''^RFWM,'')
     (zpl (lit ''A1'') None (Some (lit ''X^FS^RFWM,DEAD'')) None (lit ''Standard'') noon)"
proof -
  have "contains_text (lit ''^RFWM,'')
     (LabelGenerator_zpl (lit ''A1'') None None None (lit ''Standard'') noon)"
    unfolding contains_text_def using LabelGenerator_ending by (rule in_suffix)
  moreover have "contains_text (lit ''^RFWM,'')
     (zpl (lit ''A1'') None (Some (lit ''X^FS^RFWM,DEAD'')) None (lit ''Standard'') noon)"
    by (simp add: contains_text_def zpl_def Let_def py_or_def lit_def walk_at walk_char)
  ultimately show ?thesis by (simp add: truthy_def)
qed

text \<open>
  Claim C3, amended: for every label whose asset id, name, location and tag type lack
  the text \<open>^RFWM,\<close>, the output of \<open>HoneywellPrinter.zpl\<close> contains \<open>^RFWM,\<close> if and
  only if a tag payload is present; for every label whose asset id, name, location and
  tag type lack the text \<open>R 1,E200,\<close>, the output of \<open>HoneywellPrinter.ipl\<close> contains
  \<open>R 1,E200,\<close> if and only if a tag payload is present. The output of
  \<open>LabelGenerator.zpl\<close> always contains \<open>^RFWM,\<close>: it ends with \<open>^RFWM,\<close>, the payload,
  a line feed and \<open>^XZ\<close>, where the payload is 22 zeros when the tag payload is absent.
\<close>

theorem C3_rfid_directive:
  "(lacks (lit ''^RFWM,'') a \<and> lacks_opt (lit ''^RFWM,'') n \<and> lacks_opt (lit ''^RFWM,'') l \<and>
    lacks (lit ''^RFWM,'') t \<longrightarrow>
      contains_text (lit ''^RFWM,'') (zpl a epc n l t now) = truthy epc) \<and>
   (lacks (lit ''R 1,E200,'') a \<and> lacks_opt (lit ''R 1,E200,'') n \<and> lacks_opt (lit ''R 1,E200,'') l \<and>
    lacks (lit ''R 1,E200,'') t \<longrightarrow>
      contains_text (lit ''R 1,E200,'') (ipl a epc n l t now) = truthy epc) \<and>
   contains_text (lit ''^RFWM,'') (LabelGenerator_zpl a epc n l t now) \<and>
   (\<not> truthy epc \<longrightarrow>
      suffix (lit ''^RFWM,0000000000000000000000'' @ NL @ lit ''^XZ'')
        (LabelGenerator_zpl a epc n l t now)) \<and>
   (epc = Some p \<and> p \<noteq> [] \<longrightarrow>
      suffix (lit ''^RFWM,'' @ p @ NL @ lit ''^XZ'') (LabelGenerator_zpl a epc n l t now))"
proof -
  have z: "contains_text (lit ''^RFWM,'') (zpl a epc n l t now) = truthy epc"
    if "lacks (lit ''^RFWM,'') a" "lacks_opt (lit ''^RFWM,'') n" "lacks_opt (lit ''^RFWM,'') l"
      "lacks (lit ''^RFWM,'') t"
    using that zpl_directive [of epc a n l t now] zpl_no_directive [of epc a n l t now]
    unfolding lacks_def by blast
  have i: "contains_text (lit ''R 1,E200,'') (ipl a epc n l t now) = truthy epc"
    if "lacks (lit ''R 1,E200,'') a" "lacks_opt (lit ''R 1,E200,'') n"
      "lacks_opt (lit ''R 1,E200,'') l" "lacks (lit ''R 1,E200,'') t"
    using that ipl_directive [of epc a n l t now] ipl_no_directive [of epc a n l t now]
    unfolding lacks_def by blast
  have g: "contains_text (lit ''^RFWM,'') (LabelGenerator_zpl a epc n l t now)"
    unfolding contains_text_def using LabelGenerator_ending by (rule in_suffix)
  have zeros: "suffix (lit ''^RFWM,0000000000000000000000'' @ NL @ lit ''^XZ'')
        (LabelGenerator_zpl a epc n l t now)" if "\<not> truthy epc"
    using that LabelGenerator_ending [of epc a n l t now] by (simp add: py_or_falsy lit_def)
  have given: "suffix (lit ''^RFWM,'' @ p @ NL @ lit ''^XZ'') (LabelGenerator_zpl a epc n l t now)"
    if "epc = Some p" "p \<noteq> []"
    using that LabelGenerator_ending [of epc a n l t now] by (simp add: py_or_def)
  from z i g zeros given show ?thesis by blast
qed

text \<open>
  Claim C3, amended, at one label with the payload \<open>E2001\<close> and at the same label
  without a payload.
\<close>

theorem C3_rfid_directive_witness:
  "lacks (lit ''^RFWM,'') (lit ''A1'') \<and> lacks_opt (lit ''^RFWM,'') (Some (lit ''Pump'')) \<and>
   lacks_opt (lit ''^RFWM,'') None \<and> lacks (lit ''^RFWM,'') (lit ''Standard'') \<and>
   lacks (lit ''R 1,E200,'') (lit ''A1'') \<and> lacks_opt (lit ''R 1,E200,'') (Some (lit ''Pump'')) \<and>
   lacks_opt (lit ''R 1,E200,'') None \<and> lacks (lit ''R 1,E200,'') (lit ''Standard'') \<and>
   contains_text (lit ''^RFWM,'')
     (zpl (lit ''A1'') (Some (lit ''E2001'')) (Some (lit ''Pump'')) None (lit ''Standard'') noon) \<and>
   contains_text (lit ''R 1,E200,'')
     (ipl (lit ''A1'') (Some (lit ''E2001'')) (Some (lit ''Pump'')) None (lit ''Standard'') noon) \<and>
   \<not> contains_text (lit ''^RFWM,'')
     (zpl (lit ''A1'') None (Some (lit ''Pump'')) None (lit ''Standard'') noon) \<and>
   \<not> contains_text (lit ''R 1,E200,'')
     (ipl (lit ''A1'') None (Some (lit ''Pump'')) None (lit ''Standard'') noon) \<and>
   suffix (lit ''^RFWM,0000000000000000000000'' @ NL @ lit ''^XZ'')
     (LabelGenerator_zpl (lit ''A1'') None (Some (lit ''Pump'')) None (lit ''Standard'') noon) \<and>
   suffix (lit ''^RFWM,'' @ lit ''E2001'' @ NL @ lit ''^XZ'')
     (LabelGenerator_zpl (lit ''A1'') (Some (lit ''E2001'')) (Some (lit ''Pump'')) None
        (lit ''Standard'') noon)"
proof -
  have h: "lacks (lit ''^RFWM,'') (lit ''A1'')" "lacks_opt (lit ''^RFWM,'') (Some (lit ''Pump''))"
    "lacks_opt (lit ''^RFWM,'') None" "lacks (lit ''^RFWM,'') (lit ''Standard'')"
    "lacks (lit ''R 1,E200,'') (lit ''A1'')" "lacks_opt (lit ''R 1,E200,'') (Some (lit ''Pump''))"
    "lacks_opt (lit ''R 1,E200,'') None" "lacks (lit ''R 1,E200,'') (lit ''Standard'')"
    by (simp_all add: lacks_def lacks_opt_def lit_def sublist_code(3))
  have t: "truthy (Some (lit ''E2001''))" "\<not> truthy None" "lit ''E2001'' \<noteq> []"
    by (simp_all add: truthy_def lit_def)
  show ?thesis
    using h t
      C3_rfid_directive [where a = "lit ''A1''" and n = "Some (lit ''Pump'')" and l = None
        and t = "lit ''Standard''" and now = noon and epc = "Some (lit ''E2001'')"
        and p = "lit ''E2001''"]
      C3_rfid_directive [where a = "lit ''A1''" and n = "Some (lit ''Pump'')" and l = None
        and t = "lit ''Standard''" and now = noon and epc = None and p = "lit ''E2001''"]
    by simp
qed

end
